theory Spec2Isabelle
  imports Complex_Main "HOL-Library.AList"
begin

section \<open>JavaScript values\<close>

text \<open>
  The repository is JavaScript: a field of the caller's object is \<open>undefined\<close> (key
  absent), \<open>null\<close>, or a value. Numbers are rationals here (JavaScript doubles, their
  \<open>NaN\<close> and infinities are not represented); the code under study never computes with
  them, it only passes them on and tests them for truthiness.
\<close>

datatype jsval =
    Undefined
  | Null
  | Bool bool
  | Num rat
  | Str string
  | Arr "jsval list"
  | Obj "(string \<times> jsval) list"

type_synonym jsobj = "(string \<times> jsval) list"

text \<open>\<open>obj.k\<close> on an object: the value stored under the key, \<open>undefined\<close> without it.\<close>

definition js_prop :: "jsobj \<Rightarrow> string \<Rightarrow> jsval" where
  "js_prop obj k = (case map_of obj k of None \<Rightarrow> Undefined | Some v \<Rightarrow> v)"

text \<open>\<open>!v\<close>: the falsy values are \<open>undefined\<close>, \<open>null\<close>, \<open>false\<close>, \<open>0\<close> and \<open>""\<close>.\<close>

fun js_not :: "jsval \<Rightarrow> bool" where
  "js_not Undefined = True"
| "js_not Null = True"
| "js_not (Bool b) = (if b then False else True)"
| "js_not (Num n) = (n = 0)"
| "js_not (Str s) = (s = [])"
| "js_not (Arr xs) = False"
| "js_not (Obj kvs) = False"

text \<open>\<open>a ?? b\<close>: the right operand when the left one is \<open>undefined\<close> or \<open>null\<close>.\<close>

definition nullish :: "jsval \<Rightarrow> jsval \<Rightarrow> jsval" where
  "nullish a b = (if a = Undefined \<or> a = Null then b else a)"

text \<open>
  A destructuring default \<open>const { k = d } = obj\<close>: the default is taken only for
  \<open>undefined\<close>, an explicit \<open>null\<close> is kept.
\<close>

definition destructure_default :: "jsobj \<Rightarrow> string \<Rightarrow> jsval \<Rightarrow> jsval" where
  "destructure_default obj k d = (if js_prop obj k = Undefined then d else js_prop obj k)"

text \<open>
  \<open>v.k\<close> on any value, as the route handler of the listing reads \<open>result.rows\<close>: a
  \<open>TypeError\<close> on \<open>undefined\<close> and \<open>null\<close>, the stored value on an object, \<open>length\<close> on
  an array or a string, \<open>undefined\<close> for a name the value does not have (index names
  and the methods of the prototypes are not modelled; the handler reads \<open>rows\<close>).
\<close>

datatype error =
    ReferenceError string
  | TypeError
  | DatabaseError string
  | PrismaValidationError
  | PrismaRecordNotFound
  | PrismaRequestError string

fun member :: "jsval \<Rightarrow> string \<Rightarrow> error + jsval" where
  "member Undefined k = Inl TypeError"
| "member Null k = Inl TypeError"
| "member (Obj kvs) k = Inr (js_prop kvs k)"
| "member (Arr xs) k = Inr (if k = ''length'' then Num (of_nat (length xs)) else Undefined)"
| "member (Str s) k = Inr (if k = ''length'' then Num (of_nat (length s)) else Undefined)"
| "member (Bool b) k = Inr Undefined"
| "member (Num n) k = Inr Undefined"

section \<open>The table \<open>componentes\<close>\<close>

text \<open>
  The schema of the repository:
  \<^verbatim>\<open>
  CREATE TABLE IF NOT EXISTS componentes (
    id SERIAL PRIMARY KEY,
    nombre VARCHAR(120) NOT NULL,
    tipo VARCHAR(80) NOT NULL,
    marca VARCHAR(80),
    precio NUMERIC(10,2) NOT NULL DEFAULT 0,
    stock INT NOT NULL DEFAULT 0,
    creado_en TIMESTAMP NOT NULL DEFAULT NOW());
  \<close>
  A row is a record of its columns, and the table is the list of its rows. A cell holds
  the value of the column as a JavaScript value: a \<open>Num\<close> in \<open>precio\<close> stands for that
  number, whatever object the driver or the ORM wraps it in when it hands the row out.
  The connection is taken to be up: no operation fails for transport reasons.
\<close>

record componente =
  row_id :: int
  nombre :: jsval
  tipo :: jsval
  marca :: jsval
  precio :: jsval
  stock :: jsval
  creado_en :: nat

record db =
  tbl :: "componente list"

datatype column = Nombre | Tipo | Marca | Precio | Stock

fun column_of :: "column \<Rightarrow> componente \<Rightarrow> jsval" where
  "column_of Nombre r = nombre r"
| "column_of Tipo r = tipo r"
| "column_of Marca r = marca r"
| "column_of Precio r = precio r"
| "column_of Stock r = stock r"

fun set_column :: "column \<Rightarrow> jsval \<Rightarrow> componente \<Rightarrow> componente" where
  "set_column Nombre v r = r\<lparr>nombre := v\<rparr>"
| "set_column Tipo v r = r\<lparr>tipo := v\<rparr>"
| "set_column Marca v r = r\<lparr>marca := v\<rparr>"
| "set_column Precio v r = r\<lparr>precio := v\<rparr>"
| "set_column Stock v r = r\<lparr>stock := v\<rparr>"

text \<open>The key of the caller's object that feeds a column.\<close>

fun column_key :: "column \<Rightarrow> string" where
  "column_key Nombre = ''nombre''"
| "column_key Tipo = ''tipo''"
| "column_key Marca = ''marca''"
| "column_key Precio = ''precio''"
| "column_key Stock = ''stock''"

text \<open>\<open>NOT NULL\<close>, on every column but \<open>marca\<close>.\<close>

definition not_null_ok :: "componente \<Rightarrow> bool" where
  "not_null_ok r =
     (nombre r \<noteq> Null \<and> tipo r \<noteq> Null \<and> precio r \<noteq> Null \<and> stock r \<noteq> Null)"

text \<open>
  The column types. A value \<open>fits\<close> its column when it is of the column's type and within
  its limits, so that the store keeps it as it is given: a string of at most 120 (80)
  characters without the character 0 for the \<open>VARCHAR\<close> columns, a number of at most two
  decimals and less than \<open>10^8\<close> in size for \<open>NUMERIC(10,2)\<close>, a whole number of 32 bits
  for \<open>INT\<close>. A string is the list of its characters.
\<close>

fun fits :: "column \<Rightarrow> jsval \<Rightarrow> bool" where
  "fits Nombre (Str s) = (length s \<le> 120 \<and> CHR 0x00 \<notin> set s)"
| "fits Tipo (Str s) = (length s \<le> 80 \<and> CHR 0x00 \<notin> set s)"
| "fits Marca (Str s) = (length s \<le> 80 \<and> CHR 0x00 \<notin> set s)"
| "fits Precio (Num q) = (of_int \<lfloor>q * 100\<rfloor> = q * 100 \<and> \<bar>q\<bar> < 100000000)"
| "fits Stock (Num q) = (of_int \<lfloor>q\<rfloor> = q \<and> - 2147483648 \<le> q \<and> q < 2147483648)"
| "fits c v = False"

text \<open>
  What the sources of the repository do not determine is an argument of the model, the
  \<open>world\<close> of a call, and every statement below holds in every world:
  \<^item> \<open>pg_other c v affected\<close>: what PostgreSQL does with a parameter \<open>v\<close> for column \<open>c\<close>
    that is not \<open>null\<close> and does not fit the column (a string that is too long, a
    number out of range or with more decimals, a number for a \<open>VARCHAR\<close> column, a
    string for a numeric one): the value it stores instead, or the error it raises.
    \<open>affected\<close> tells whether the statement touches a row;
  \<^item> \<open>orm_other c v affected\<close>: the same for the ORM, whose client validates the types
    of the data before the store sees them;
  \<^item> \<open>nextval\<close>: the value the sequence of \<open>id\<close> hands out to an \<open>INSERT\<close> of this call
    (the store advances the sequence as it sees fit, also when a statement fails);
  \<^item> \<open>clock\<close>: what \<open>NOW()\<close> reads.
\<close>

record world =
  pg_other :: "column \<Rightarrow> jsval \<Rightarrow> bool \<Rightarrow> error + jsval"
  orm_other :: "column \<Rightarrow> jsval \<Rightarrow> bool \<Rightarrow> error + jsval"
  nextval :: int
  clock :: nat

text \<open>
  A \<open>null\<close> is \<open>NULL\<close> in every column type; a value that fits is kept; for any other
  value the world answers.
\<close>

definition pg_in :: "world \<Rightarrow> bool \<Rightarrow> column \<Rightarrow> jsval \<Rightarrow> error + jsval" where
  "pg_in w affected c v =
     (if v = Null then Inr Null else if fits c v then Inr v else pg_other w c v affected)"

definition orm_in :: "world \<Rightarrow> bool \<Rightarrow> column \<Rightarrow> jsval \<Rightarrow> error + jsval" where
  "orm_in w affected c v =
     (if v = Null then Inr Null else if fits c v then Inr v else orm_other w c v affected)"

text \<open>Converting the values of a list of columns, in order; the first error is thrown.\<close>

fun convert_sets ::
  "(column \<Rightarrow> jsval \<Rightarrow> error + jsval) \<Rightarrow> (column \<times> jsval) list \<Rightarrow> error + (column \<times> jsval) list" where
  "convert_sets f [] = Inr []"
| "convert_sets f ((c, v) # bs) =
     (case f c v of
        Inl e \<Rightarrow> Inl e
      | Inr v' \<Rightarrow>
          (case convert_sets f bs of Inl e \<Rightarrow> Inl e | Inr bs' \<Rightarrow> Inr ((c, v') # bs')))"

definition apply_sets :: "(column \<times> jsval) list \<Rightarrow> componente \<Rightarrow> componente" where
  "apply_sets bs r = foldl (\<lambda>acc cv. set_column (fst cv) (snd cv) acc) r bs"

text \<open>
  The row an \<open>INSERT\<close> starts from: the id from the sequence, the time from the clock,
  the column defaults of the schema (\<open>NULL\<close> where none is declared).
\<close>

definition new_row :: "world \<Rightarrow> componente" where
  "new_row w =
     \<lparr>row_id = nextval w, nombre = Null, tipo = Null, marca = Null, precio = Num 0,
      stock = Num 0, creado_en = clock w\<rparr>"

text \<open>
  The columns an object supplies, in the order of the schema: one item for each key
  that is not \<open>undefined\<close>.
\<close>

definition supplied :: "jsobj \<Rightarrow> string \<Rightarrow> column \<Rightarrow> (column \<times> jsval) list" where
  "supplied datos k c = (if js_prop datos k \<noteq> Undefined then [(c, js_prop datos k)] else [])"

definition supplied_all :: "jsobj \<Rightarrow> (column \<times> jsval) list" where
  "supplied_all datos =
     supplied datos ''nombre'' Nombre @ supplied datos ''tipo'' Tipo @
     supplied datos ''marca'' Marca @ supplied datos ''precio'' Precio @
     supplied datos ''stock'' Stock"

text \<open>
  The seed rows of the schema file and the table after they are inserted; and one world
  for the statements at concrete inputs: the sequence stands at 5 and the clock at 0, as
  after the seed, and a value that does not fit is refused (none of those statements
  supplies one).
\<close>

definition seed_ryzen :: componente where
  "seed_ryzen =
     \<lparr>row_id = 1, nombre = Str ''Ryzen 5 5600'', tipo = Str ''CPU'', marca = Str ''AMD'',
      precio = Num (12999 / 100), stock = Num 12, creado_en = 0\<rparr>"

definition seed_core :: componente where
  "seed_core =
     \<lparr>row_id = 2, nombre = Str ''Core i5-12400F'', tipo = Str ''CPU'', marca = Str ''Intel'',
      precio = Num (14999 / 100), stock = Num 8, creado_en = 0\<rparr>"

definition seed_rtx :: componente where
  "seed_rtx =
     \<lparr>row_id = 3, nombre = Str ''RTX 4060'', tipo = Str ''GPU'', marca = Str ''NVIDIA'',
      precio = Num (29999 / 100), stock = Num 5, creado_en = 0\<rparr>"

definition seed_samsung :: componente where
  "seed_samsung =
     \<lparr>row_id = 4, nombre = Str ''Samsung 970 EVO Plus 1TB'', tipo = Str ''SSD'',
      marca = Str ''Samsung'', precio = Num (899 / 10), stock = Num 20, creado_en = 0\<rparr>"

definition seed_db :: db where
  "seed_db = \<lparr>tbl = [seed_ryzen, seed_core, seed_rtx, seed_samsung]\<rparr>"

definition seed_world :: world where
  "seed_world =
     \<lparr>pg_other = (\<lambda>c v affected. Inl (DatabaseError ''22P02'')),
      orm_other = (\<lambda>c v affected. Inl PrismaValidationError),
      nextval = 5, clock = 0\<rparr>"

section \<open>The driver: \<open>pool.query(sql, params)\<close>\<close>

text \<open>
  \<open>pool.query\<close> returns an object with \<open>rows\<close> and \<open>rowCount\<close>, or throws the server's
  error. Each SQL text of the repository is one function below. A parameter that is
  \<open>undefined\<close> is sent as \<open>null\<close> (the driver's \<open>prepareValue\<close>). A statement that
  throws leaves the rows of the table as they were.
\<close>

record pg_result =
  rows :: "componente list"
  rowCount :: nat

definition prepareValue :: "jsval \<Rightarrow> jsval" where
  "prepareValue v = (if v = Undefined then Null else v)"

text \<open>\<open>$k\<close> in a statement: the k-th parameter, counted from 1.\<close>

definition placeholder :: "jsval list \<Rightarrow> nat \<Rightarrow> jsval option" where
  "placeholder vals k =
     (if 1 \<le> k \<and> k \<le> length vals then Some (prepareValue (vals ! (k - 1))) else None)"

text \<open>\<open>SELECT * FROM componentes ORDER BY id ASC\<close>\<close>

definition sql_select_all :: "db \<Rightarrow> pg_result" where
  "sql_select_all d = \<lparr>rows = sort_key row_id (tbl d), rowCount = length (tbl d)\<rparr>"

text \<open>\<open>SELECT * FROM componentes WHERE id = $1\<close>\<close>

definition sql_select_by_id :: "db \<Rightarrow> int \<Rightarrow> pg_result" where
  "sql_select_by_id d i =
     (let found = filter (\<lambda>r. row_id r = i) (tbl d)
      in \<lparr>rows = found, rowCount = length found\<rparr>)"

text \<open>
  \<open>INSERT INTO componentes (nombre, tipo, marca, precio, stock)
   VALUES ($1, $2, $3, $4, $5) RETURNING *\<close>: the five parameters are converted to their
  columns and written over the new row; then the row is checked against \<open>NOT NULL\<close>
  (error 23502) and its id against the primary key (error 23505). Error 08P01 is a
  parameter list of the wrong length.
\<close>

definition sql_insert :: "world \<Rightarrow> db \<Rightarrow> jsval list \<Rightarrow> error + (pg_result \<times> db)" where
  "sql_insert w d vals =
     (case map prepareValue vals of
        [v1, v2, v3, v4, v5] \<Rightarrow>
          (case convert_sets (pg_in w True)
                  [(Nombre, v1), (Tipo, v2), (Marca, v3), (Precio, v4), (Stock, v5)] of
             Inl e \<Rightarrow> Inl e
           | Inr cs \<Rightarrow>
               (let r = apply_sets cs (new_row w)
                in if not_null_ok r
                   then if filter (\<lambda>x. row_id x = row_id r) (tbl d) = []
                        then Inr (\<lparr>rows = [r], rowCount = 1\<rparr>, d\<lparr>tbl := tbl d @ [r]\<rparr>)
                        else Inl (DatabaseError ''23505'')
                   else Inl (DatabaseError ''23502'')))
      | _ \<Rightarrow> Inl (DatabaseError ''08P01''))"

text \<open>
  \<open>UPDATE componentes SET c1 = $k1, c2 = $k2, ... WHERE id = $wi RETURNING *\<close>, the
  statement \<open>update\<close> builds: \<open>field_list\<close> (\<open>fields\<close> in the source) are its \<open>SET\<close>
  items, each a column and the number of its placeholder. The values are converted to
  their columns, every row with the id takes them, and each such row is checked against
  \<open>NOT NULL\<close>. Error 22P02 is an \<open>id\<close> parameter that is not a number.
\<close>

fun bind_sets :: "(column \<times> nat) list \<Rightarrow> jsval list \<Rightarrow> (column \<times> jsval) list option" where
  "bind_sets [] vals = Some []"
| "bind_sets ((c, k) # fs) vals =
     (case placeholder vals k of
        None \<Rightarrow> None
      | Some v \<Rightarrow>
          (case bind_sets fs vals of None \<Rightarrow> None | Some bs \<Rightarrow> Some ((c, v) # bs)))"

definition sql_update ::
  "world \<Rightarrow> db \<Rightarrow> (column \<times> nat) list \<Rightarrow> nat \<Rightarrow> jsval list \<Rightarrow> error + (pg_result \<times> db)" where
  "sql_update w d field_list wi vals =
     (case bind_sets field_list vals of
        None \<Rightarrow> Inl (DatabaseError ''08P01'')
      | Some bs \<Rightarrow>
          (case placeholder vals wi of
             None \<Rightarrow> Inl (DatabaseError ''08P01'')
           | Some (Num q) \<Rightarrow>
               (let found = filter (\<lambda>r. of_int (row_id r) = q) (tbl d)
                in case convert_sets (pg_in w (found \<noteq> [])) bs of
                     Inl e \<Rightarrow> Inl e
                   | Inr cs \<Rightarrow>
                       if list_all not_null_ok (map (apply_sets cs) found)
                       then Inr (\<lparr>rows = map (apply_sets cs) found, rowCount = length found\<rparr>,
                                 d\<lparr>tbl := map (\<lambda>r. if of_int (row_id r) = q then apply_sets cs r
                                                    else r) (tbl d)\<rparr>)
                       else Inl (DatabaseError ''23502''))
           | Some _ \<Rightarrow> Inl (DatabaseError ''22P02'')))"

text \<open>\<open>DELETE FROM componentes WHERE id = $1 RETURNING id\<close>\<close>

definition sql_delete :: "db \<Rightarrow> int \<Rightarrow> pg_result \<times> db" where
  "sql_delete d i =
     (let gone = filter (\<lambda>r. row_id r = i) (tbl d)
      in (\<lparr>rows = gone, rowCount = length gone\<rparr>,
          d\<lparr>tbl := filter (\<lambda>r. row_id r \<noteq> i) (tbl d)\<rparr>))"

section \<open>The repository over SQL (componentes.pg.repo.js)\<close>

text \<open>
  A repository operation that writes returns the thrown error, or its value and the
  table afterwards. \<open>None\<close> is the \<open>null\<close> of \<open>getById\<close> and \<open>update\<close>.
\<close>

text \<open>\<open>result.rows[0] ?? null\<close>\<close>

definition first_row :: "pg_result \<Rightarrow> componente option" where
  "first_row result = (case rows result of [] \<Rightarrow> None | r # _ \<Rightarrow> Some r)"

definition pg_getAll :: "db \<Rightarrow> componente list" where
  "pg_getAll d = rows (sql_select_all d)"

definition pg_getById :: "db \<Rightarrow> int \<Rightarrow> componente option" where
  "pg_getById d i = first_row (sql_select_by_id d i)"

definition pg_create :: "world \<Rightarrow> db \<Rightarrow> jsobj \<Rightarrow> error + (componente option \<times> db)" where
  "pg_create w d datos =
     (let v_nombre = js_prop datos ''nombre'';
          v_tipo = js_prop datos ''tipo'';
          v_marca = destructure_default datos ''marca'' Null;
          v_precio = destructure_default datos ''precio'' (Num 0);
          v_stock = destructure_default datos ''stock'' (Num 0)
      in case sql_insert w d [v_nombre, v_tipo, v_marca, v_precio, v_stock] of
           Inl e \<Rightarrow> Inl e
         | Inr (result, d') \<Rightarrow> Inr (first_row result, d'))"

text \<open>
  One \<open>if (datos.c !== undefined) { fields.push(`c = $${i++}`); values.push(datos.c) }\<close>
  of \<open>update\<close>, on the triple of \<open>fields\<close>, \<open>values\<close> and the counter \<open>i\<close>.
\<close>

definition push_field ::
  "jsobj \<Rightarrow> string \<Rightarrow> column \<Rightarrow> (column \<times> nat) list \<times> jsval list \<times> nat
   \<Rightarrow> (column \<times> nat) list \<times> jsval list \<times> nat" where
  "push_field datos k c st =
     (case st of (field_list, vals, i) \<Rightarrow>
        if js_prop datos k \<noteq> Undefined
        then (field_list @ [(c, i)], vals @ [js_prop datos k], i + 1)
        else (field_list, vals, i))"

definition pg_update :: "world \<Rightarrow> db \<Rightarrow> int \<Rightarrow> jsobj \<Rightarrow> error + (componente option \<times> db)" where
  "pg_update w d i datos =
     (case push_field datos ''stock'' Stock
             (push_field datos ''precio'' Precio
               (push_field datos ''marca'' Marca
                 (push_field datos ''tipo'' Tipo
                   (push_field datos ''nombre'' Nombre ([], [], 1))))) of
        (field_list, vals, k) \<Rightarrow>
          if length field_list = 0 then Inr (pg_getById d i, d)
          else (case sql_update w d field_list k (vals @ [Num (of_int i)]) of
                  Inl e \<Rightarrow> Inl e
                | Inr (result, d') \<Rightarrow> Inr (first_row result, d')))"

definition pg_remove :: "db \<Rightarrow> int \<Rightarrow> error + (bool \<times> db)" where
  "pg_remove d i =
     (case sql_delete d i of (result, d') \<Rightarrow> Inr (0 < rowCount result, d'))"

section \<open>The ORM client (\<open>prisma.componentes\<close>)\<close>

text \<open>
  The ORM is a library, and neither the module that builds its client nor its schema
  file is among the sources of the repository. The model below takes the ORM's schema to
  be the table's, and follows what the comments of componentes.prisma.repo.js say of
  each call: \<open>findUnique\<close> returns \<open>null\<close> for a missing row and does not throw; \<open>create\<close>
  validates the types, the required fields and the restrictions of the schema;
  \<open>update\<close> and \<open>delete\<close> throw when no row has the id. In \<open>data\<close> a key holding
  \<open>undefined\<close> counts as left out, and takes the column's default in \<open>create\<close>. A
  required field that is missing or \<open>null\<close> is refused by the client before anything
  is sent; what happens to a value that does not fit its column is the world's. The
  store's own errors reach the caller as request errors: P2002 for the primary key,
  P2011 for \<open>NOT NULL\<close>.
\<close>

definition model_findMany :: "db \<Rightarrow> componente list" where
  "model_findMany d = sort_key row_id (tbl d)"

definition model_findUnique :: "db \<Rightarrow> int \<Rightarrow> componente option" where
  "model_findUnique d i =
     (case filter (\<lambda>r. row_id r = i) (tbl d) of [] \<Rightarrow> None | r # _ \<Rightarrow> Some r)"

definition data_not_null :: "jsobj \<Rightarrow> bool" where
  "data_not_null data =
     (js_prop data ''nombre'' \<noteq> Null \<and> js_prop data ''tipo'' \<noteq> Null \<and>
      js_prop data ''precio'' \<noteq> Null \<and> js_prop data ''stock'' \<noteq> Null)"

definition model_create :: "world \<Rightarrow> db \<Rightarrow> jsobj \<Rightarrow> error + (componente \<times> db)" where
  "model_create w d data =
     (if js_prop data ''nombre'' = Undefined \<or> js_prop data ''tipo'' = Undefined then
        Inl PrismaValidationError
      else if data_not_null data then
        (case convert_sets (orm_in w True) (supplied_all data) of
           Inl e \<Rightarrow> Inl e
         | Inr cs \<Rightarrow>
             (let r = apply_sets cs (new_row w)
              in if not_null_ok r
                 then if filter (\<lambda>x. row_id x = row_id r) (tbl d) = []
                      then Inr (r, d\<lparr>tbl := tbl d @ [r]\<rparr>)
                      else Inl (PrismaRequestError ''P2002'')
                 else Inl (PrismaRequestError ''P2011'')))
      else Inl PrismaValidationError)"

definition model_update :: "world \<Rightarrow> db \<Rightarrow> int \<Rightarrow> jsobj \<Rightarrow> error + (componente \<times> db)" where
  "model_update w d i data =
     (if data_not_null data then
        (let found = filter (\<lambda>r. row_id r = i) (tbl d)
         in case convert_sets (orm_in w (found \<noteq> [])) (supplied_all data) of
              Inl e \<Rightarrow> Inl e
            | Inr cs \<Rightarrow>
                (case found of
                   [] \<Rightarrow> Inl PrismaRecordNotFound
                 | r # _ \<Rightarrow>
                     if list_all not_null_ok (map (apply_sets cs) found)
                     then Inr (apply_sets cs r,
                               d\<lparr>tbl := map (\<lambda>x. if row_id x = i then apply_sets cs x else x)
                                          (tbl d)\<rparr>)
                     else Inl (PrismaRequestError ''P2011'')))
      else Inl PrismaValidationError)"

definition model_delete :: "db \<Rightarrow> int \<Rightarrow> error + (componente \<times> db)" where
  "model_delete d i =
     (case filter (\<lambda>r. row_id r = i) (tbl d) of
        [] \<Rightarrow> Inl PrismaRecordNotFound
      | r # _ \<Rightarrow> Inr (r, d\<lparr>tbl := filter (\<lambda>x. row_id x \<noteq> i) (tbl d)\<rparr>))"

section \<open>The repository over the ORM (componentes.prisma.repo.js)\<close>

definition prisma_getAll :: "db \<Rightarrow> componente list" where
  "prisma_getAll d = model_findMany d"

definition prisma_getById :: "db \<Rightarrow> int \<Rightarrow> componente option" where
  "prisma_getById d i = model_findUnique d i"

definition prisma_create :: "world \<Rightarrow> db \<Rightarrow> jsobj \<Rightarrow> error + (componente option \<times> db)" where
  "prisma_create w d datos =
     (let v_nombre = js_prop datos ''nombre'';
          v_tipo = js_prop datos ''tipo'';
          v_marca = destructure_default datos ''marca'' Null;
          v_precio = destructure_default datos ''precio'' (Num 0);
          v_stock = destructure_default datos ''stock'' (Num 0)
      in case model_create w d
                [(''nombre'', v_nombre), (''tipo'', v_tipo), (''marca'', v_marca),
                 (''precio'', v_precio), (''stock'', v_stock)] of
           Inl e \<Rightarrow> Inl e
         | Inr (r, d') \<Rightarrow> Inr (Some r, d'))"

text \<open>One \<open>if (datos.k !== undefined) payload.k = datos.k\<close> of \<open>update\<close>.\<close>

definition put_field :: "jsobj \<Rightarrow> string \<Rightarrow> jsobj \<Rightarrow> jsobj" where
  "put_field datos k payload =
     (if js_prop datos k \<noteq> Undefined then AList.update k (js_prop datos k) payload
      else payload)"

definition prisma_update :: "world \<Rightarrow> db \<Rightarrow> int \<Rightarrow> jsobj \<Rightarrow> error + (componente option \<times> db)" where
  "prisma_update w d i datos =
     (let payload =
            put_field datos ''marca''
              (put_field datos ''stock''
                (put_field datos ''precio''
                  (put_field datos ''tipo''
                    (put_field datos ''nombre'' []))))
      in case model_update w d i payload of
           Inl e \<Rightarrow> Inl e
         | Inr (r, d') \<Rightarrow> Inr (Some r, d'))"

definition prisma_remove :: "db \<Rightarrow> int \<Rightarrow> error + (bool \<times> db)" where
  "prisma_remove d i =
     (case model_delete d i of
        Inl e \<Rightarrow> Inl e
      | Inr (r, d') \<Rightarrow> Inr (True, d'))"

section \<open>The HTTP layer (app.js)\<close>

text \<open>
  The module binds \<open>express\<close>, \<open>repo\<close>, \<open>path\<close>, \<open>app\<close> and \<open>PORT\<close>. Reading an
  identifier is a lookup in that scope; one that is not bound throws a
  \<open>ReferenceError\<close>. \<open>repo\<close> is what index.js exports: one of the two repositories.
\<close>

datatype strategy = PG | Prisma

datatype binding =
    ExpressModule
  | RepoModule strategy
  | PathModule
  | ExpressApp
  | PortValue
  | PoolObject

type_synonym scope = "(string \<times> binding) list"

definition app_scope :: "strategy \<Rightarrow> scope" where
  "app_scope s =
     [(''express'', ExpressModule), (''repo'', RepoModule s), (''path'', PathModule),
      (''app'', ExpressApp), (''PORT'', PortValue)]"

definition resolve :: "scope \<Rightarrow> string \<Rightarrow> error + binding" where
  "resolve sc name =
     (case map_of sc name of None \<Rightarrow> Inl (ReferenceError name) | Some b \<Rightarrow> Inr b)"

text \<open>
  Evaluating \<open>pool.query\<close>: the identifier \<open>pool\<close> is resolved first; a binding that is
  no pool has no \<open>query\<close> to call.
\<close>

definition pool_query :: "scope \<Rightarrow> error + unit" where
  "pool_query sc =
     (case resolve sc ''pool'' of
        Inl e \<Rightarrow> Inl e
      | Inr PoolObject \<Rightarrow> Inr ()
      | Inr _ \<Rightarrow> Inl TypeError)"

fun message :: "error \<Rightarrow> string" where
  "message (ReferenceError name) = name @ '' is not defined''"
| "message TypeError = ''not a function''"
| "message (DatabaseError code) = code"
| "message PrismaValidationError = ''Invalid invocation''"
| "message PrismaRecordNotFound = ''Record to update not found''"
| "message (PrismaRequestError code) = code"

record response =
  status :: nat
  body :: "jsval option"

text \<open>\<open>res.status(st).json(v)\<close> (the status is 200 when none is set) and
  \<open>res.status(st).send()\<close>.\<close>

definition res_json :: "nat \<Rightarrow> jsval \<Rightarrow> response" where
  "res_json st v = \<lparr>status = st, body = Some v\<rparr>"

definition res_send :: "nat \<Rightarrow> response" where
  "res_send st = \<lparr>status = st, body = None\<rparr>"

definition res_error :: "string \<Rightarrow> error \<Rightarrow> response" where
  "res_error what e = res_json 500 (Obj [(''error'', Str what), (''detalle'', Str (message e))])"

text \<open>A row as the JSON object the driver and the ORM hand out.\<close>

definition row_obj :: "componente \<Rightarrow> jsval" where
  "row_obj r =
     Obj [(''id'', Num (of_int (row_id r))), (''nombre'', nombre r), (''tipo'', tipo r),
          (''marca'', marca r), (''precio'', precio r), (''stock'', stock r),
          (''creado_en'', Num (of_nat (creado_en r)))]"

text \<open>\<open>result.rows[0]\<close> as a value: \<open>undefined\<close> on an empty array.\<close>

definition rows0 :: "pg_result \<Rightarrow> jsval" where
  "rows0 result = (case rows result of [] \<Rightarrow> Undefined | r # _ \<Rightarrow> row_obj r)"

definition repo_getAll :: "strategy \<Rightarrow> db \<Rightarrow> componente list" where
  "repo_getAll s d = (case s of PG \<Rightarrow> pg_getAll d | Prisma \<Rightarrow> prisma_getAll d)"

text \<open>
  \<open>GET /componentes\<close>: \<open>const result = await repo.getAll(); res.json(result.rows)\<close>.
  What \<open>repo.getAll()\<close> returns is the array of the rows.
\<close>

definition get_componentes :: "scope \<Rightarrow> db \<Rightarrow> response" where
  "get_componentes sc d =
     (case resolve sc ''repo'' of
        Inl e \<Rightarrow> res_error ''Error al listar componentes'' e
      | Inr (RepoModule s) \<Rightarrow>
          (let result = Arr (map row_obj (repo_getAll s d))
           in case member result ''rows'' of
                Inl e \<Rightarrow> res_error ''Error al listar componentes'' e
              | Inr v \<Rightarrow> res_json 200 v)
      | Inr _ \<Rightarrow> res_error ''Error al listar componentes'' TypeError)"

text \<open>
  \<open>GET /componentes/:id\<close>. The path parameter is taken as the integer it denotes.
\<close>

definition get_componente :: "scope \<Rightarrow> db \<Rightarrow> int \<Rightarrow> response" where
  "get_componente sc d i =
     (case pool_query sc of
        Inl e \<Rightarrow> res_error ''Error al obtener componentes'' e
      | Inr _ \<Rightarrow>
          (let result = sql_select_by_id d i
           in if length (rows result) = 0
              then res_json 404 (Obj [(''error'', Str ''No encontrado'')])
              else res_json 200 (rows0 result)))"

text \<open>\<open>POST /componentes\<close>: the validation stands before the \<open>try\<close>.\<close>

definition post_componentes :: "scope \<Rightarrow> world \<Rightarrow> db \<Rightarrow> jsobj \<Rightarrow> response \<times> db" where
  "post_componentes sc w d req_body =
     (let v_nombre = js_prop req_body ''nombre'';
          v_tipo = js_prop req_body ''tipo'';
          v_marca = destructure_default req_body ''marca'' Null;
          v_precio = destructure_default req_body ''precio'' (Num 0);
          v_stock = destructure_default req_body ''stock'' (Num 0)
      in if js_not v_nombre \<or> js_not v_tipo
         then (res_json 400 (Obj [(''error'', Str ''Campos obligatorios: nombre y tipo'')]), d)
         else
           (case pool_query sc of
              Inl e \<Rightarrow> (res_error ''Error al crear componentes'' e, d)
            | Inr _ \<Rightarrow>
                (case sql_insert w d [v_nombre, v_tipo, v_marca, v_precio, v_stock] of
                   Inl e \<Rightarrow> (res_error ''Error al crear componentes'' e, d)
                 | Inr (result, d') \<Rightarrow> (res_json 201 (rows0 result), d'))))"

text \<open>
  The statement of the \<open>PUT\<close> handler:
  \<open>UPDATE componentes SET nombre = COALESCE($1, nombre), ..., stock = COALESCE($5, stock)
   WHERE id = $6 RETURNING *\<close>.
\<close>

definition coalesce :: "jsval \<Rightarrow> jsval \<Rightarrow> jsval" where
  "coalesce v old = (if v = Null then old else v)"

definition sql_update_coalesce :: "world \<Rightarrow> db \<Rightarrow> jsval list \<Rightarrow> error + (pg_result \<times> db)" where
  "sql_update_coalesce w d vals =
     (case map prepareValue vals of
        [v1, v2, v3, v4, v5, Num q] \<Rightarrow>
          (let found = filter (\<lambda>r. of_int (row_id r) = q) (tbl d)
           in case convert_sets (pg_in w (found \<noteq> []))
                     [(Nombre, v1), (Tipo, v2), (Marca, v3), (Precio, v4), (Stock, v5)] of
                Inl e \<Rightarrow> Inl e
              | Inr cs \<Rightarrow>
                  (let change =
                         (\<lambda>r. apply_sets
                                 (map (\<lambda>cv. (fst cv, coalesce (snd cv) (column_of (fst cv) r))) cs) r)
                   in if list_all not_null_ok (map change found)
                      then Inr (\<lparr>rows = map change found, rowCount = length found\<rparr>,
                                d\<lparr>tbl := map (\<lambda>r. if of_int (row_id r) = q then change r else r)
                                           (tbl d)\<rparr>)
                      else Inl (DatabaseError ''23502'')))
      | [v1, v2, v3, v4, v5, _] \<Rightarrow> Inl (DatabaseError ''22P02'')
      | _ \<Rightarrow> Inl (DatabaseError ''08P01''))"

text \<open>\<open>PUT /componentes/:id\<close>: the validation is the first statement of the \<open>try\<close>.\<close>

definition put_componente ::
  "scope \<Rightarrow> world \<Rightarrow> db \<Rightarrow> int \<Rightarrow> jsobj \<Rightarrow> response \<times> db" where
  "put_componente sc w d i req_body =
     (let v_nombre = js_prop req_body ''nombre'';
          v_tipo = js_prop req_body ''tipo'';
          v_marca = js_prop req_body ''marca'';
          v_precio = js_prop req_body ''precio'';
          v_stock = js_prop req_body ''stock''
      in if js_not v_nombre \<or> js_not v_tipo
         then (res_json 400 (Obj [(''error'', Str ''Campos obligatorios: nombre y tipo'')]), d)
         else
           (case pool_query sc of
              Inl e \<Rightarrow> (res_error ''Error al actualizar componente'' e, d)
            | Inr _ \<Rightarrow>
                if length (rows (sql_select_by_id d i)) = 0
                then (res_json 404 (Obj [(''error'', Str ''No encontrado'')]), d)
                else
                  (case sql_update_coalesce w d
                          [nullish v_nombre Null, nullish v_tipo Null, nullish v_marca Null,
                           nullish v_precio Null, nullish v_stock Null, Num (of_int i)] of
                     Inl e \<Rightarrow> (res_error ''Error al actualizar componente'' e, d)
                   | Inr (result, d') \<Rightarrow> (res_json 200 (rows0 result), d'))))"

text \<open>\<open>DELETE /componentes/:id\<close>, with the statement
  \<open>DELETE FROM componentes WHERE id = $1 RETURNING *\<close>.\<close>

definition delete_componente :: "scope \<Rightarrow> db \<Rightarrow> int \<Rightarrow> response \<times> db" where
  "delete_componente sc d i =
     (case pool_query sc of
        Inl e \<Rightarrow> (res_error ''Error al eliminar componente'' e, d)
      | Inr _ \<Rightarrow>
          (case sql_delete d i of
             (result, d') \<Rightarrow>
               if length (rows result) = 0
               then (res_json 404 (Obj [(''error'', Str ''No encontrado'')]), d')
               else (res_send 204, d')))"

section \<open>Notions used in the statements\<close>

text \<open>
  The values an object supplies fit their columns: each is \<open>null\<close> or fits. With
  \<open>data_not_null\<close>, a \<open>null\<close> is then left to \<open>marca\<close> alone.
\<close>

definition values_fit :: "jsobj \<Rightarrow> bool" where
  "values_fit datos =
     list_all (\<lambda>cv. snd cv = Null \<or> fits (fst cv) (snd cv)) (supplied_all datos)"

text \<open>
  A row after it has taken what an object supplies: each column holds the object's
  value when the key is present, and what it held otherwise.
\<close>

definition data_or :: "jsobj \<Rightarrow> string \<Rightarrow> jsval \<Rightarrow> jsval" where
  "data_or data k old = (if js_prop data k = Undefined then old else js_prop data k)"

definition apply_data :: "jsobj \<Rightarrow> componente \<Rightarrow> componente" where
  "apply_data data r =
     r\<lparr>nombre := data_or data ''nombre'' (nombre r),
       tipo := data_or data ''tipo'' (tipo r),
       marca := data_or data ''marca'' (marca r),
       precio := data_or data ''precio'' (precio r),
       stock := data_or data ''stock'' (stock r)\<rparr>"

text \<open>The table after every row with the id has taken the supplied values.\<close>

definition changed_tbl :: "db \<Rightarrow> int \<Rightarrow> jsobj \<Rightarrow> db" where
  "changed_tbl d i datos =
     d\<lparr>tbl := map (\<lambda>r. if row_id r = i then apply_data datos r else r) (tbl d)\<rparr>"

text \<open>The three variables of \<open>update\<close> (SQL) after its five tests, and the \<open>payload\<close>
  of \<open>update\<close> (ORM) after its five.\<close>

definition build_update :: "jsobj \<Rightarrow> (column \<times> nat) list \<times> jsval list \<times> nat" where
  "build_update datos =
     push_field datos ''stock'' Stock
       (push_field datos ''precio'' Precio
         (push_field datos ''marca'' Marca
           (push_field datos ''tipo'' Tipo
             (push_field datos ''nombre'' Nombre ([], [], 1)))))"

definition build_payload :: "jsobj \<Rightarrow> jsobj" where
  "build_payload datos =
     put_field datos ''marca''
       (put_field datos ''stock''
         (put_field datos ''precio''
           (put_field datos ''tipo''
             (put_field datos ''nombre'' []))))"

section \<open>Basic facts\<close>

lemma js_prop_Nil: "js_prop [] k = Undefined"
  by (simp add: js_prop_def)

text \<open>
  The bookkeeping of \<open>update\<close> (SQL): after each test the counter is one more than the
  number of values pushed, and every \<open>SET\<close> item refers to the value pushed with it.
  Pushing further values, the id among them, does not disturb the earlier placeholders.
\<close>

lemma placeholder_append:
  "placeholder vals k = Some v \<Longrightarrow> placeholder (vals @ ws) k = Some v"
  by (auto simp: placeholder_def nth_append split: if_splits)

lemma placeholder_last:
  "placeholder (vals @ [x]) (Suc (length vals)) = Some (prepareValue x)"
  by (simp add: placeholder_def)

lemma bind_sets_append:
  "bind_sets fl vals = Some bs \<Longrightarrow> bind_sets fl (vals @ ws) = Some bs"
proof (induction fl vals arbitrary: bs rule: bind_sets.induct)
  case (1 vals)
  then show ?case by simp
next
  case (2 c k fs vals)
  then show ?case
    by (auto simp: placeholder_append split: option.splits)
qed

lemma bind_sets_snoc:
  "bind_sets fl vals = Some bs \<Longrightarrow> placeholder vals k = Some v \<Longrightarrow>
   bind_sets (fl @ [(c, k)]) vals = Some (bs @ [(c, v)])"
  by (induction fl vals arbitrary: bs rule: bind_sets.induct) (auto split: option.splits)

lemma push_field_step:
  assumes "bind_sets fl vals = Some bs"
  shows "\<exists>fl' vals'. push_field datos key c (fl, vals, Suc (length vals)) = (fl', vals', Suc (length vals'))
           \<and> bind_sets fl' vals' = Some (bs @ supplied datos key c)"
proof (cases "js_prop datos key = Undefined")
  case True
  then show ?thesis using assms by (simp add: push_field_def supplied_def)
next
  case False
  have "bind_sets (fl @ [(c, Suc (length vals))]) (vals @ [js_prop datos key])
        = Some (bs @ [(c, js_prop datos key)])"
    using bind_sets_snoc [OF bind_sets_append [OF assms, of "[js_prop datos key]"],
        of "Suc (length vals)" "js_prop datos key" c] False
    by (simp add: placeholder_last prepareValue_def)
  then show ?thesis using False by (simp add: push_field_def supplied_def)
qed

lemma bind_sets_length: "bind_sets fl vals = Some bs \<Longrightarrow> length bs = length fl"
  by (induction fl vals arbitrary: bs rule: bind_sets.induct) (auto split: option.splits)

lemma build_update_binds:
  "\<exists>fl vals. build_update datos = (fl, vals, Suc (length vals))
     \<and> bind_sets fl vals = Some (supplied_all datos)"
proof -
  have b0: "bind_sets [] [] = Some []" by simp
  obtain f1 v1 where s1:
    "push_field datos ''nombre'' Nombre ([], [], 1) = (f1, v1, Suc (length v1))"
    "bind_sets f1 v1 = Some (supplied datos ''nombre'' Nombre)"
    using push_field_step [OF b0, of datos "''nombre''" Nombre] by auto
  obtain f2 v2 where s2:
    "push_field datos ''tipo'' Tipo (f1, v1, Suc (length v1)) = (f2, v2, Suc (length v2))"
    "bind_sets f2 v2 = Some (supplied datos ''nombre'' Nombre @ supplied datos ''tipo'' Tipo)"
    using push_field_step [OF s1(2), of datos "''tipo''" Tipo] by auto
  obtain f3 v3 where s3:
    "push_field datos ''marca'' Marca (f2, v2, Suc (length v2)) = (f3, v3, Suc (length v3))"
    "bind_sets f3 v3 = Some ((supplied datos ''nombre'' Nombre @ supplied datos ''tipo'' Tipo)
        @ supplied datos ''marca'' Marca)"
    using push_field_step [OF s2(2), of datos "''marca''" Marca] by auto
  obtain f4 v4 where s4:
    "push_field datos ''precio'' Precio (f3, v3, Suc (length v3)) = (f4, v4, Suc (length v4))"
    "bind_sets f4 v4 = Some (((supplied datos ''nombre'' Nombre @ supplied datos ''tipo'' Tipo)
        @ supplied datos ''marca'' Marca) @ supplied datos ''precio'' Precio)"
    using push_field_step [OF s3(2), of datos "''precio''" Precio] by auto
  obtain f5 v5 where s5:
    "push_field datos ''stock'' Stock (f4, v4, Suc (length v4)) = (f5, v5, Suc (length v5))"
    "bind_sets f5 v5 = Some ((((supplied datos ''nombre'' Nombre @ supplied datos ''tipo'' Tipo)
        @ supplied datos ''marca'' Marca) @ supplied datos ''precio'' Precio)
        @ supplied datos ''stock'' Stock)"
    using push_field_step [OF s4(2), of datos "''stock''" Stock] by auto
  have "build_update datos = (f5, v5, Suc (length v5))"
    unfolding build_update_def s1(1) s2(1) s3(1) s4(1) s5(1) ..
  moreover have "bind_sets f5 v5 = Some (supplied_all datos)"
    using s5(2) by (simp add: supplied_all_def)
  ultimately show ?thesis by blast
qed

text \<open>
  The \<open>SET\<close> items of the statement, taken together, do to a row what \<open>data\<close> does in
  the ORM: each supplied column takes its value, the others stay.
\<close>

lemma apply_sets_append: "apply_sets (xs @ ys) r = apply_sets ys (apply_sets xs r)"
  by (simp add: apply_sets_def)

lemma apply_sets_supplied:
  "apply_sets (supplied datos k c) r = set_column c (data_or datos k (column_of c r)) r"
  by (cases c) (simp_all add: apply_sets_def supplied_def data_or_def)

lemma apply_sets_supplied_all: "apply_sets (supplied_all datos) r = apply_data datos r"
  by (simp add: supplied_all_def apply_sets_append apply_sets_supplied apply_data_def)

lemma apply_sets_supplied_all_fun: "apply_sets (supplied_all datos) = apply_data datos"
  by (rule ext) (rule apply_sets_supplied_all)

lemma supplied_all_Nil_iff:
  "supplied_all datos = [] \<longleftrightarrow>
     js_prop datos ''nombre'' = Undefined \<and> js_prop datos ''tipo'' = Undefined \<and>
     js_prop datos ''marca'' = Undefined \<and> js_prop datos ''precio'' = Undefined \<and>
     js_prop datos ''stock'' = Undefined"
  by (simp add: supplied_all_def supplied_def)

lemma apply_data_none: "supplied_all datos = [] \<Longrightarrow> apply_data datos r = r"
  using apply_sets_supplied_all [of datos r] by (simp add: apply_sets_def)

lemma apply_data_row_id [simp]: "row_id (apply_data datos r) = row_id r"
  by (simp add: apply_data_def)

lemma apply_data_creado_en [simp]: "creado_en (apply_data datos r) = creado_en r"
  by (simp add: apply_data_def)

lemma not_null_apply_data:
  "not_null_ok r \<Longrightarrow> data_not_null datos \<Longrightarrow> not_null_ok (apply_data datos r)"
  by (simp add: not_null_ok_def data_not_null_def apply_data_def data_or_def)

lemma null_apply_data:
  "\<not> data_not_null datos \<Longrightarrow> \<not> not_null_ok (apply_data datos r)"
  by (auto simp: not_null_ok_def data_not_null_def apply_data_def data_or_def)


text \<open>Values that fit are stored as they are, by the store and by the ORM, in every world.\<close>

lemma convert_sets_fit:
  assumes "list_all (\<lambda>cv. snd cv = Null \<or> fits (fst cv) (snd cv)) bs"
  shows "convert_sets (pg_in w a) bs = Inr bs" and "convert_sets (orm_in w a) bs = Inr bs"
  using assms by (induction bs) (auto simp: pg_in_def orm_in_def)

lemma values_fit_iff:
  "values_fit datos \<longleftrightarrow>
     (js_prop datos ''nombre'' = Undefined \<or> js_prop datos ''nombre'' = Null
        \<or> fits Nombre (js_prop datos ''nombre''))
     \<and> (js_prop datos ''tipo'' = Undefined \<or> js_prop datos ''tipo'' = Null
        \<or> fits Tipo (js_prop datos ''tipo''))
     \<and> (js_prop datos ''marca'' = Undefined \<or> js_prop datos ''marca'' = Null
        \<or> fits Marca (js_prop datos ''marca''))
     \<and> (js_prop datos ''precio'' = Undefined \<or> js_prop datos ''precio'' = Null
        \<or> fits Precio (js_prop datos ''precio''))
     \<and> (js_prop datos ''stock'' = Undefined \<or> js_prop datos ''stock'' = Null
        \<or> fits Stock (js_prop datos ''stock''))"
  by (simp add: values_fit_def supplied_all_def supplied_def)

text \<open>No statement changes the id or the creation time of a row.\<close>

lemma apply_sets_keeps:
  "row_id (apply_sets cs r) = row_id r" "creado_en (apply_sets cs r) = creado_en r"
proof -
  have "row_id (foldl (\<lambda>acc cv. set_column (fst cv) (snd cv) acc) r cs) = row_id r
      \<and> creado_en (foldl (\<lambda>acc cv. set_column (fst cv) (snd cv) acc) r cs) = creado_en r"
  proof (induction cs arbitrary: r)
    case Nil
    then show ?case by simp
  next
    case (Cons cv cs)
    show ?case
      using Cons [of "set_column (fst cv) (snd cv) r"] by (cases "fst cv") simp_all
  qed
  then show "row_id (apply_sets cs r) = row_id r" "creado_en (apply_sets cs r) = creado_en r"
    by (simp_all add: apply_sets_def)
qed

text \<open>
  What \<open>update\<close> (SQL) computes, without the statement text: no field, a read; else the
  supplied values are converted and the rows with the id take them, unless one of them
  would break \<open>NOT NULL\<close>.
\<close>

lemma sql_update_bound:
  assumes "bind_sets fl vals = Some bs" and "placeholder vals wi = Some (Num (of_int i))"
  shows "sql_update w d fl wi vals =
     (case convert_sets (pg_in w (filter (\<lambda>r. row_id r = i) (tbl d) \<noteq> [])) bs of
        Inl e \<Rightarrow> Inl e
      | Inr cs \<Rightarrow>
          if list_all not_null_ok (map (apply_sets cs) (filter (\<lambda>r. row_id r = i) (tbl d)))
          then Inr (\<lparr>rows = map (apply_sets cs) (filter (\<lambda>r. row_id r = i) (tbl d)),
                     rowCount = length (filter (\<lambda>r. row_id r = i) (tbl d))\<rparr>,
                    d\<lparr>tbl := map (\<lambda>r. if row_id r = i then apply_sets cs r else r) (tbl d)\<rparr>)
          else Inl (DatabaseError ''23502''))"
  using assms by (simp add: sql_update_def Let_def split: sum.splits)

lemma pg_update_conv:
  "pg_update w d i datos =
     (if supplied_all datos = [] then Inr (pg_getById d i, d)
      else
        (case convert_sets (pg_in w (filter (\<lambda>r. row_id r = i) (tbl d) \<noteq> []))
                (supplied_all datos) of
           Inl e \<Rightarrow> Inl e
         | Inr cs \<Rightarrow>
             if list_all not_null_ok (map (apply_sets cs) (filter (\<lambda>r. row_id r = i) (tbl d)))
             then Inr (case filter (\<lambda>r. row_id r = i) (tbl d) of
                         [] \<Rightarrow> None | r # _ \<Rightarrow> Some (apply_sets cs r),
                       d\<lparr>tbl := map (\<lambda>r. if row_id r = i then apply_sets cs r else r) (tbl d)\<rparr>)
             else Inl (DatabaseError ''23502'')))"
proof -
  obtain fl vals where b: "build_update datos = (fl, vals, Suc (length vals))"
    and s: "bind_sets fl vals = Some (supplied_all datos)"
    using build_update_binds by blast
  have len: "fl = [] \<longleftrightarrow> supplied_all datos = []"
    using bind_sets_length [OF s] by auto
  have wi: "placeholder (vals @ [Num (of_int i)]) (Suc (length vals)) = Some (Num (of_int i))"
    by (simp add: placeholder_last prepareValue_def)
  have u: "pg_update w d i datos =
      (if length fl = 0 then Inr (pg_getById d i, d)
       else (case sql_update w d fl (Suc (length vals)) (vals @ [Num (of_int i)]) of
               Inl e \<Rightarrow> Inl e
             | Inr (result, d') \<Rightarrow> Inr (first_row result, d')))"
    using b by (simp add: pg_update_def build_update_def)
  show ?thesis
    unfolding u sql_update_bound [OF bind_sets_append [OF s] wi]
    using len
    by (simp add: first_row_def split: list.splits sum.splits)
qed

lemma pg_update_char:
  assumes "values_fit datos"
  shows "pg_update w d i datos =
     (if supplied_all datos = [] then Inr (pg_getById d i, d)
      else if list_all not_null_ok (map (apply_data datos) (filter (\<lambda>r. row_id r = i) (tbl d)))
      then Inr (case filter (\<lambda>r. row_id r = i) (tbl d) of
                  [] \<Rightarrow> None | r # _ \<Rightarrow> Some (apply_data datos r),
                changed_tbl d i datos)
      else Inl (DatabaseError ''23502''))"
proof -
  have c: "convert_sets (pg_in w a) (supplied_all datos) = Inr (supplied_all datos)" for a
    using assms by (simp add: values_fit_def convert_sets_fit)
  show ?thesis
    by (simp add: pg_update_conv c apply_sets_supplied_all_fun apply_sets_supplied_all
        changed_tbl_def split: list.splits)
qed


text \<open>
  What \<open>update\<close> (ORM) computes: the payload holds the caller's five fields, so the
  call validates and applies the caller's object.
\<close>

lemma js_prop_put_field:
  "js_prop (put_field datos k payload) k' =
     (if k' = k \<and> js_prop datos k \<noteq> Undefined then js_prop datos k else js_prop payload k')"
  by (simp add: put_field_def js_prop_def update_conv')

lemma build_payload_props:
  "js_prop (build_payload datos) ''nombre'' = js_prop datos ''nombre''"
  "js_prop (build_payload datos) ''tipo'' = js_prop datos ''tipo''"
  "js_prop (build_payload datos) ''marca'' = js_prop datos ''marca''"
  "js_prop (build_payload datos) ''precio'' = js_prop datos ''precio''"
  "js_prop (build_payload datos) ''stock'' = js_prop datos ''stock''"
  by (simp_all add: build_payload_def js_prop_put_field js_prop_Nil)

lemma supplied_all_payload: "supplied_all (build_payload datos) = supplied_all datos"
  by (simp add: supplied_all_def supplied_def build_payload_props)

lemma data_not_null_payload: "data_not_null (build_payload datos) = data_not_null datos"
  by (simp add: data_not_null_def build_payload_props)

lemma prisma_update_conv:
  "prisma_update w d i datos =
     (if data_not_null datos then
        (case convert_sets (orm_in w (filter (\<lambda>r. row_id r = i) (tbl d) \<noteq> []))
                (supplied_all datos) of
           Inl e \<Rightarrow> Inl e
         | Inr cs \<Rightarrow>
             (case filter (\<lambda>r. row_id r = i) (tbl d) of
                [] \<Rightarrow> Inl PrismaRecordNotFound
              | r # _ \<Rightarrow>
                  if list_all not_null_ok
                       (map (apply_sets cs) (filter (\<lambda>r. row_id r = i) (tbl d)))
                  then Inr (Some (apply_sets cs r),
                            d\<lparr>tbl := map (\<lambda>x. if row_id x = i then apply_sets cs x else x)
                                       (tbl d)\<rparr>)
                  else Inl (PrismaRequestError ''P2011'')))
      else Inl PrismaValidationError)"
proof -
  have "prisma_update w d i datos =
      (case model_update w d i (build_payload datos) of
         Inl e \<Rightarrow> Inl e | Inr (r, d') \<Rightarrow> Inr (Some r, d'))"
    by (simp add: prisma_update_def build_payload_def)
  then show ?thesis
    by (simp add: model_update_def data_not_null_payload supplied_all_payload Let_def
        split: list.splits sum.splits)
qed

lemma prisma_update_char:
  assumes "values_fit datos"
  shows "prisma_update w d i datos =
     (if data_not_null datos then
        (case filter (\<lambda>r. row_id r = i) (tbl d) of
           [] \<Rightarrow> Inl PrismaRecordNotFound
         | r # _ \<Rightarrow>
             if list_all not_null_ok (map (apply_data datos) (filter (\<lambda>r. row_id r = i) (tbl d)))
             then Inr (Some (apply_data datos r), changed_tbl d i datos)
             else Inl (PrismaRequestError ''P2011''))
      else Inl PrismaValidationError)"
proof -
  have c: "convert_sets (orm_in w a) (supplied_all datos) = Inr (supplied_all datos)" for a
    using assms by (simp add: values_fit_def convert_sets_fit)
  show ?thesis
    by (simp add: prisma_update_conv c apply_sets_supplied_all_fun apply_sets_supplied_all
        changed_tbl_def split: list.splits)
qed

text \<open>\<open>update\<close> on an id without a row, and on an id with one.\<close>

lemma changed_tbl_missing:
  "filter (\<lambda>r. row_id r = i) (tbl d) = [] \<Longrightarrow> changed_tbl d i datos = d"
proof -
  assume "filter (\<lambda>r. row_id r = i) (tbl d) = []"
  then have "\<forall>r \<in> set (tbl d). row_id r \<noteq> i"
    by (simp add: filter_empty_conv)
  then have "map (\<lambda>r. if row_id r = i then apply_data datos r else r) (tbl d) = tbl d"
    by (simp add: map_idI)
  then show ?thesis by (simp add: changed_tbl_def)
qed

lemma changed_tbl_none: "supplied_all datos = [] \<Longrightarrow> changed_tbl d i datos = d"
  by (simp add: changed_tbl_def apply_data_none map_idI)

lemma pg_getById_filter:
  "pg_getById d i = (case filter (\<lambda>r. row_id r = i) (tbl d) of [] \<Rightarrow> None | r # _ \<Rightarrow> Some r)"
  by (simp add: pg_getById_def first_row_def sql_select_by_id_def Let_def)

lemma pg_update_missing:
  assumes "pg_getById d i = None" and "values_fit datos"
  shows "pg_update w d i datos = Inr (None, d)"
proof -
  have f: "filter (\<lambda>r. row_id r = i) (tbl d) = []"
    using assms(1) by (simp add: pg_getById_filter split: list.splits)
  show ?thesis
    using assms(1) by (simp add: pg_update_char [OF assms(2)] f changed_tbl_missing [OF f])
qed

lemma prisma_update_missing:
  "pg_getById d i = None \<Longrightarrow> values_fit datos \<Longrightarrow> data_not_null datos \<Longrightarrow>
   prisma_update w d i datos = Inl PrismaRecordNotFound"
  by (simp add: prisma_update_char pg_getById_filter split: list.splits)

lemma list_all_filter: "list_all P xs \<Longrightarrow> list_all P (filter Q xs)"
  by (induction xs) auto

lemma update_rows_not_null:
  assumes "list_all not_null_ok (tbl d)" and "data_not_null datos"
  shows "list_all not_null_ok (map (apply_data datos) (filter (\<lambda>x. row_id x = i) (tbl d)))"
proof -
  have "list_all not_null_ok (filter (\<lambda>x. row_id x = i) (tbl d))"
    using assms(1) by (rule list_all_filter)
  then show ?thesis
    using assms(2) by (simp add: list_all_iff not_null_apply_data)
qed

lemma pg_update_existing:
  assumes "pg_getById d i = Some r" and "list_all not_null_ok (tbl d)"
    and "data_not_null datos" and "values_fit datos"
  shows "pg_update w d i datos = Inr (Some (apply_data datos r), changed_tbl d i datos)"
proof -
  obtain rest where f: "filter (\<lambda>x. row_id x = i) (tbl d) = r # rest"
    using assms(1) by (auto simp: pg_getById_filter split: list.splits)
  note ok = update_rows_not_null [OF assms(2,3), of i]
  show ?thesis
  proof (cases "supplied_all datos = []")
    case True
    then show ?thesis
      using assms(1)
      by (simp add: pg_update_char [OF assms(4)] apply_data_none changed_tbl_none)
  next
    case False
    then show ?thesis
      using ok f by (simp add: pg_update_char [OF assms(4)])
  qed
qed

lemma prisma_update_existing:
  assumes "pg_getById d i = Some r" and "list_all not_null_ok (tbl d)"
    and "data_not_null datos" and "values_fit datos"
  shows "prisma_update w d i datos = Inr (Some (apply_data datos r), changed_tbl d i datos)"
proof -
  obtain rest where f: "filter (\<lambda>x. row_id x = i) (tbl d) = r # rest"
    using assms(1) by (auto simp: pg_getById_filter split: list.splits)
  show ?thesis
    using update_rows_not_null [OF assms(2,3), of i] f assms(3)
    by (simp add: prisma_update_char [OF assms(4)])
qed

lemma getById_changed_tbl:
  "pg_getById (changed_tbl d i datos) i = map_option (apply_data datos) (pg_getById d i)"
proof -
  have "filter (\<lambda>r. row_id r = i) (map (\<lambda>r. if row_id r = i then apply_data datos r else r) xs)
        = map (apply_data datos) (filter (\<lambda>r. row_id r = i) xs)" for xs
    by (induction xs) auto
  then show ?thesis
    by (simp add: pg_getById_filter changed_tbl_def split: list.splits)
qed

lemma prisma_getById_eq: "prisma_getById d i = pg_getById d i"
  by (simp add: prisma_getById_def model_findUnique_def pg_getById_filter)

section \<open>Facts about the seed table and about \<open>remove\<close>\<close>

lemma seed_ids [simp]:
  "row_id seed_ryzen = 1" "row_id seed_core = 2" "row_id seed_rtx = 3" "row_id seed_samsung = 4"
  by (simp_all add: seed_ryzen_def seed_core_def seed_rtx_def seed_samsung_def)

lemma seed_not_null: "list_all not_null_ok (tbl seed_db)"
  by (simp add: seed_db_def not_null_ok_def seed_ryzen_def seed_core_def seed_rtx_def
      seed_samsung_def)

lemma seed_getById:
  "pg_getById seed_db 1 = Some seed_ryzen"
  "pg_getById seed_db 2 = Some seed_core"
  "pg_getById seed_db 99 = None"
  "pg_getById seed_db 5 = None"
  by (simp_all add: pg_getById_filter seed_db_def)

lemma filter_other_id:
  "pg_getById d i = None \<Longrightarrow> filter (\<lambda>r. row_id r \<noteq> i) (tbl d) = tbl d"
  by (auto simp: pg_getById_filter filter_empty_conv filter_id_conv split: list.splits)

lemma pg_remove_char:
  "pg_remove d i =
     Inr (pg_getById d i \<noteq> None, d\<lparr>tbl := filter (\<lambda>r. row_id r \<noteq> i) (tbl d)\<rparr>)"
  by (simp add: pg_remove_def sql_delete_def pg_getById_filter Let_def split: list.splits)

lemma prisma_remove_char:
  "prisma_remove d i =
     (case pg_getById d i of
        None \<Rightarrow> Inl PrismaRecordNotFound
      | Some r \<Rightarrow> Inr (True, d\<lparr>tbl := filter (\<lambda>r. row_id r \<noteq> i) (tbl d)\<rparr>))"
  by (simp add: prisma_remove_def model_delete_def pg_getById_filter split: list.splits)

lemma getById_after_delete:
  "pg_getById (d\<lparr>tbl := filter (\<lambda>r. row_id r \<noteq> i) (tbl d)\<rparr>) i = None"
  by (simp add: pg_getById_filter)

lemma pg_remove_missing: "pg_getById d i = None \<Longrightarrow> pg_remove d i = Inr (False, d)"
  by (simp add: pg_remove_char filter_other_id)

text \<open>The field objects of the statements at concrete inputs.\<close>

lemma data_not_null_examples:
  "data_not_null []"
  "data_not_null [(''precio'', Num 50)]"
  "data_not_null [(''stock'', Num 10)]"
  by (simp_all add: data_not_null_def js_prop_def)

lemma values_fit_examples:
  "values_fit []"
  "values_fit [(''precio'', Num 50)]"
  "values_fit [(''stock'', Num 10)]"
  by (simp_all add: values_fit_iff js_prop_def)

section \<open>The claims\<close>

text \<open>
  C1. The claim: for every operation and input the two repositories return the same
  outcome, in particular for \<open>update\<close> and \<open>remove\<close> on an id that no row has. On the
  seed table and the missing id 99 they differ: the SQL repository returns \<open>null\<close> from
  \<open>update\<close> and \<open>false\<close> from \<open>remove\<close>, the ORM repository throws from both.
\<close>

theorem C1_missing_id_outcomes_differ:
  "pg_update w seed_db 99 [(''precio'', Num 50)] = Inr (None, seed_db)
   \<and> prisma_update w seed_db 99 [(''precio'', Num 50)] = Inl PrismaRecordNotFound
   \<and> pg_remove seed_db 99 = Inr (False, seed_db)
   \<and> prisma_remove seed_db 99 = Inl PrismaRecordNotFound"
proof -
  have "prisma_remove seed_db 99 = Inl PrismaRecordNotFound"
    by (simp add: prisma_remove_char seed_getById)
  then show ?thesis
    using pg_update_missing [OF seed_getById(3) values_fit_examples(2)]
      prisma_update_missing [OF seed_getById(3) values_fit_examples(2) data_not_null_examples(2)]
    by (simp add: pg_remove_missing seed_getById)
qed

text \<open>
  C2. The claim: \<open>update\<close> on an id that matches no row returns \<open>null\<close> and does not
  throw, in both repositories, also for a row that was just deleted. After \<open>remove(1)\<close>
  on the seed table, \<open>update(1, {stock: 10})\<close> returns \<open>null\<close> in the SQL repository
  and throws in the ORM repository.
\<close>

theorem C2_update_after_delete:
  "pg_remove seed_db 1 = Inr (True, seed_db\<lparr>tbl := [seed_core, seed_rtx, seed_samsung]\<rparr>)
   \<and> prisma_remove seed_db 1 = Inr (True, seed_db\<lparr>tbl := [seed_core, seed_rtx, seed_samsung]\<rparr>)
   \<and> pg_update w (seed_db\<lparr>tbl := [seed_core, seed_rtx, seed_samsung]\<rparr>) 1 [(''stock'', Num 10)]
       = Inr (None, seed_db\<lparr>tbl := [seed_core, seed_rtx, seed_samsung]\<rparr>)
   \<and> prisma_update w (seed_db\<lparr>tbl := [seed_core, seed_rtx, seed_samsung]\<rparr>) 1 [(''stock'', Num 10)]
       = Inl PrismaRecordNotFound"
proof -
  have t: "filter (\<lambda>r. row_id r \<noteq> 1) (tbl seed_db) = [seed_core, seed_rtx, seed_samsung]"
    by (simp add: seed_db_def)
  have g: "pg_getById (seed_db\<lparr>tbl := [seed_core, seed_rtx, seed_samsung]\<rparr>) 1 = None"
    by (simp add: pg_getById_filter)
  show ?thesis
    using pg_update_missing [OF g values_fit_examples(3)]
      prisma_update_missing [OF g values_fit_examples(3) data_not_null_examples(3)]
    by (simp add: pg_remove_char prisma_remove_char seed_getById t)
qed

text \<open>
  C3. The claim: \<open>remove\<close> returns \<open>false\<close> when no row matched and never throws on a
  missing id, so a second \<open>remove\<close> of the same id returns \<open>false\<close>, in both
  repositories. After \<open>remove(2)\<close> on the seed table the second \<open>remove(2)\<close> returns
  \<open>false\<close> in the SQL repository and throws in the ORM repository.
\<close>

theorem C3_second_remove:
  "pg_remove seed_db 2 = Inr (True, seed_db\<lparr>tbl := [seed_ryzen, seed_rtx, seed_samsung]\<rparr>)
   \<and> pg_remove (seed_db\<lparr>tbl := [seed_ryzen, seed_rtx, seed_samsung]\<rparr>) 2
       = Inr (False, seed_db\<lparr>tbl := [seed_ryzen, seed_rtx, seed_samsung]\<rparr>)
   \<and> prisma_remove seed_db 2 = Inr (True, seed_db\<lparr>tbl := [seed_ryzen, seed_rtx, seed_samsung]\<rparr>)
   \<and> prisma_remove (seed_db\<lparr>tbl := [seed_ryzen, seed_rtx, seed_samsung]\<rparr>) 2
       = Inl PrismaRecordNotFound"
proof -
  have t: "filter (\<lambda>r. row_id r \<noteq> 2) (tbl seed_db) = [seed_ryzen, seed_rtx, seed_samsung]"
    by (simp add: seed_db_def)
  have g: "pg_getById (seed_db\<lparr>tbl := [seed_ryzen, seed_rtx, seed_samsung]\<rparr>) 2 = None"
    by (simp add: pg_getById_filter)
  show ?thesis
    using pg_remove_missing [OF g] g
    by (simp add: pg_remove_char prisma_remove_char seed_getById t)
qed

text \<open>
  C8. The claim: \<open>update(id, {})\<close> changes nothing and returns the current row, or
  \<open>null\<close> when the id does not exist, in both repositories. On the seed table and the
  missing id 99 the SQL repository returns \<open>null\<close>; the ORM repository throws.
\<close>

theorem C8_empty_update_missing_id:
  "pg_update w seed_db 99 [] = Inr (None, seed_db)
   \<and> prisma_update w seed_db 99 [] = Inl PrismaRecordNotFound"
  using pg_update_missing [OF seed_getById(3) values_fit_examples(1)]
    prisma_update_missing [OF seed_getById(3) values_fit_examples(1) data_not_null_examples(1)]
  by simp

lemma get_componentes_body:
  "get_componentes (app_scope s) d = \<lparr>status = 200, body = Some Undefined\<rparr>"
  by (simp add: get_componentes_def app_scope_def resolve_def res_json_def)

lemma sort_key_seed: "sort_key row_id (tbl seed_db) = tbl seed_db"
  by (simp add: seed_db_def)

text \<open>
  C6. The claim: \<open>GET /componentes\<close> answers 200 with the array of all rows ordered by
  id (an empty array for an empty table); with the SQL repository \<open>repo.getAll()\<close>
  returns the array of rows and the handler sends that array. The handler sends
  \<open>result.rows\<close> where \<open>result\<close> already is the array: the body is \<open>undefined\<close>, on the
  seed table (whose four rows \<open>getAll\<close> does return) and on the empty table.
\<close>

theorem C6_list_body_is_undefined:
  "pg_getAll seed_db = [seed_ryzen, seed_core, seed_rtx, seed_samsung]
   \<and> get_componentes (app_scope PG) seed_db = \<lparr>status = 200, body = Some Undefined\<rparr>
   \<and> pg_getAll (seed_db\<lparr>tbl := []\<rparr>) = []
   \<and> get_componentes (app_scope PG) (seed_db\<lparr>tbl := []\<rparr>) = \<lparr>status = 200, body = Some Undefined\<rparr>"
  using sort_key_seed
  by (simp add: get_componentes_body pg_getAll_def sql_select_all_def seed_db_def)

lemma pool_unbound: "pool_query (app_scope s) = Inl (ReferenceError ''pool'')"
  by (simp add: pool_query_def resolve_def app_scope_def)

lemma status_res: "status (res_error what e) = 500" "status (res_json st v) = st"
  by (simp_all add: res_error_def res_json_def)

lemma post_validation:
  "js_not (js_prop b ''nombre'') \<or> js_not (js_prop b ''tipo'') \<Longrightarrow>
   post_componentes sc w d b =
     (res_json 400 (Obj [(''error'', Str ''Campos obligatorios: nombre y tipo'')]), d)"
  by (auto simp: post_componentes_def Let_def)

lemma put_validation:
  "js_not (js_prop b ''nombre'') \<or> js_not (js_prop b ''tipo'') \<Longrightarrow>
   put_componente sc w d i b =
     (res_json 400 (Obj [(''error'', Str ''Campos obligatorios: nombre y tipo'')]), d)"
  by (auto simp: put_componente_def Let_def)

text \<open>
  C5, as amended. In app.js the identifier \<open>pool\<close> is not bound, so \<open>GET /componentes/:id\<close>
  and \<open>DELETE /componentes/:id\<close> always answer 500; \<open>POST /componentes\<close> and
  \<open>PUT /componentes/:id\<close> answer 500 whenever \<open>nombre\<close> and \<open>tipo\<close> are both truthy, and
  400 whenever one of them is falsy (absent, or present as \<open>null\<close>, the empty string, 0
  or \<open>false\<close>): the validation \<open>!nombre || !tipo\<close> runs before \<open>pool\<close> is read. The
  table is left as it was.
\<close>

theorem C5_unbound_pool_gives_500:
  "get_componente (app_scope s) d i
     = res_error ''Error al obtener componentes'' (ReferenceError ''pool'')
   \<and> delete_componente (app_scope s) d i
     = (res_error ''Error al eliminar componente'' (ReferenceError ''pool''), d)
   \<and> (\<not> js_not (js_prop b ''nombre'') \<and> \<not> js_not (js_prop b ''tipo'') \<longrightarrow>
        post_componentes (app_scope s) w d b
          = (res_error ''Error al crear componentes'' (ReferenceError ''pool''), d)
        \<and> put_componente (app_scope s) w d i b
          = (res_error ''Error al actualizar componente'' (ReferenceError ''pool''), d))
   \<and> (js_not (js_prop b ''nombre'') \<or> js_not (js_prop b ''tipo'') \<longrightarrow>
        post_componentes (app_scope s) w d b
          = (\<lparr>status = 400,
              body = Some (Obj [(''error'', Str ''Campos obligatorios: nombre y tipo'')])\<rparr>, d)
        \<and> put_componente (app_scope s) w d i b
          = (\<lparr>status = 400,
              body = Some (Obj [(''error'', Str ''Campos obligatorios: nombre y tipo'')])\<rparr>, d))
   \<and> status (res_error what (ReferenceError ''pool'')) = 500"
proof -
  have g: "get_componente (app_scope s) d i
      = res_error ''Error al obtener componentes'' (ReferenceError ''pool'')"
    by (simp add: get_componente_def pool_unbound)
  have r: "delete_componente (app_scope s) d i
      = (res_error ''Error al eliminar componente'' (ReferenceError ''pool''), d)"
    by (simp add: delete_componente_def pool_unbound)
  have p: "post_componentes (app_scope s) w d b
      = (res_error ''Error al crear componentes'' (ReferenceError ''pool''), d)"
    if "\<not> js_not (js_prop b ''nombre'')" and "\<not> js_not (js_prop b ''tipo'')"
    using that by (simp add: post_componentes_def pool_unbound Let_def)
  have u: "put_componente (app_scope s) w d i b
      = (res_error ''Error al actualizar componente'' (ReferenceError ''pool''), d)"
    if "\<not> js_not (js_prop b ''nombre'')" and "\<not> js_not (js_prop b ''tipo'')"
    using that by (simp add: put_componente_def pool_unbound Let_def)
  have v: "post_componentes (app_scope s) w d b
          = (\<lparr>status = 400,
              body = Some (Obj [(''error'', Str ''Campos obligatorios: nombre y tipo'')])\<rparr>, d)
        \<and> put_componente (app_scope s) w d i b
          = (\<lparr>status = 400,
              body = Some (Obj [(''error'', Str ''Campos obligatorios: nombre y tipo'')])\<rparr>, d)"
    if "js_not (js_prop b ''nombre'') \<or> js_not (js_prop b ''tipo'')"
    using post_validation [OF that] put_validation [OF that] by (simp add: res_json_def)
  show ?thesis
    using g r p u v status_res(1) by blast
qed

theorem C5_unbound_pool_witness:
  "\<not> js_not (js_prop [(''nombre'', Str ''Ryzen 5 5600''), (''tipo'', Str ''CPU'')] ''nombre'')
   \<and> \<not> js_not (js_prop [(''nombre'', Str ''Ryzen 5 5600''), (''tipo'', Str ''CPU'')] ''tipo'')
   \<and> status (fst (post_componentes (app_scope PG) seed_world seed_db
         [(''nombre'', Str ''Ryzen 5 5600''), (''tipo'', Str ''CPU'')])) = 500
   \<and> status (fst (put_componente (app_scope PG) seed_world seed_db 1
         [(''nombre'', Str ''Ryzen 5 5600''), (''tipo'', Str ''CPU'')])) = 500
   \<and> status (get_componente (app_scope PG) seed_db 1) = 500
   \<and> status (fst (delete_componente (app_scope PG) seed_db 1)) = 500
   \<and> js_not (js_prop [(''nombre'', Str ''''), (''tipo'', Str ''CPU'')] ''nombre'')
   \<and> status (fst (post_componentes (app_scope PG) seed_world seed_db
         [(''nombre'', Str ''''), (''tipo'', Str ''CPU'')])) = 400
   \<and> status (fst (put_componente (app_scope PG) seed_world seed_db 1
         [(''nombre'', Str ''''), (''tipo'', Str ''CPU'')])) = 400"
proof -
  have t: "\<not> js_not (js_prop [(''nombre'', Str ''Ryzen 5 5600''), (''tipo'', Str ''CPU'')] ''nombre'')"
    "\<not> js_not (js_prop [(''nombre'', Str ''Ryzen 5 5600''), (''tipo'', Str ''CPU'')] ''tipo'')"
    "js_not (js_prop [(''nombre'', Str ''''), (''tipo'', Str ''CPU'')] ''nombre'')"
    by (simp_all add: js_prop_def)
  show ?thesis
    using t
      C5_unbound_pool_gives_500 [of PG seed_db 1
        "[(''nombre'', Str ''Ryzen 5 5600''), (''tipo'', Str ''CPU'')]" seed_world]
      C5_unbound_pool_gives_500 [of PG seed_db 1
        "[(''nombre'', Str ''''), (''tipo'', Str ''CPU'')]" seed_world]
    by (simp add: status_res)
qed

text \<open>
  C5 as stated fails: a body whose \<open>nombre\<close> is present but the empty string is
  answered 400 by \<open>POST /componentes\<close> and by \<open>PUT /componentes/:id\<close>, not 500.
\<close>

theorem C5_present_but_empty_counterexample:
  "js_prop [(''nombre'', Str ''''), (''tipo'', Str ''CPU'')] ''nombre'' \<noteq> Undefined
   \<and> js_prop [(''nombre'', Str ''''), (''tipo'', Str ''CPU'')] ''tipo'' \<noteq> Undefined
   \<and> fst (post_componentes (app_scope PG) seed_world seed_db
            [(''nombre'', Str ''''), (''tipo'', Str ''CPU'')])
       = \<lparr>status = 400,
          body = Some (Obj [(''error'', Str ''Campos obligatorios: nombre y tipo'')])\<rparr>
   \<and> fst (put_componente (app_scope PG) seed_world seed_db 1
            [(''nombre'', Str ''''), (''tipo'', Str ''CPU'')])
       = \<lparr>status = 400,
          body = Some (Obj [(''error'', Str ''Campos obligatorios: nombre y tipo'')])\<rparr>"
  by (simp add: post_validation put_validation js_prop_def res_json_def)

lemma js_not_Undefined: "v = Undefined \<Longrightarrow> js_not v"
  by simp

text \<open>
  C7. \<open>PUT /componentes/:id\<close> answers 400 whenever \<open>nombre\<close> or \<open>tipo\<close> is absent from
  the body (in any scope and world, before anything is read or written), while \<open>update\<close>
  of either repository, given the same object for an existing row, does not ask for
  those two keys: whatever subset of the five keys is present, it stores the supplied
  values, provided they fit their columns and none is a \<open>null\<close> for a \<open>NOT NULL\<close> column.
\<close>

theorem C7_put_requires_nombre_tipo_repository_does_not:
  "(js_prop b ''nombre'' = Undefined \<or> js_prop b ''tipo'' = Undefined \<longrightarrow>
      put_componente sc w d i b
        = (\<lparr>status = 400,
            body = Some (Obj [(''error'', Str ''Campos obligatorios: nombre y tipo'')])\<rparr>, d))
   \<and> (pg_getById d i = Some r \<and> list_all not_null_ok (tbl d) \<and> data_not_null b
       \<and> values_fit b \<longrightarrow>
      pg_update w d i b = Inr (Some (apply_data b r), changed_tbl d i b)
      \<and> prisma_update w d i b = Inr (Some (apply_data b r), changed_tbl d i b))"
proof -
  have "put_componente sc w d i b
        = (\<lparr>status = 400,
            body = Some (Obj [(''error'', Str ''Campos obligatorios: nombre y tipo'')])\<rparr>, d)"
    if "js_prop b ''nombre'' = Undefined \<or> js_prop b ''tipo'' = Undefined"
  proof -
    from that have "js_not (js_prop b ''nombre'') \<or> js_not (js_prop b ''tipo'')"
      using js_not_Undefined by blast
    then show ?thesis
      by (simp add: put_validation res_json_def)
  qed
  then show ?thesis
    using pg_update_existing prisma_update_existing by blast
qed

theorem C7_put_versus_update_witness:
  "js_prop [(''stock'', Num 10)] ''nombre'' = Undefined
   \<and> pg_getById seed_db 1 = Some seed_ryzen
   \<and> list_all not_null_ok (tbl seed_db)
   \<and> data_not_null [(''stock'', Num 10)]
   \<and> values_fit [(''stock'', Num 10)]
   \<and> status (fst (put_componente (app_scope PG) seed_world seed_db 1 [(''stock'', Num 10)])) = 400
   \<and> pg_update seed_world seed_db 1 [(''stock'', Num 10)]
       = Inr (Some (seed_ryzen\<lparr>stock := Num 10\<rparr>),
              seed_db\<lparr>tbl := [seed_ryzen\<lparr>stock := Num 10\<rparr>, seed_core, seed_rtx, seed_samsung]\<rparr>)
   \<and> prisma_update seed_world seed_db 1 [(''stock'', Num 10)]
       = Inr (Some (seed_ryzen\<lparr>stock := Num 10\<rparr>),
              seed_db\<lparr>tbl := [seed_ryzen\<lparr>stock := Num 10\<rparr>, seed_core, seed_rtx, seed_samsung]\<rparr>)"
proof -
  have a: "apply_data [(''stock'', Num 10)] x = x\<lparr>stock := Num 10\<rparr>" for x
    by (simp add: apply_data_def data_or_def js_prop_def)
  have c: "changed_tbl seed_db 1 [(''stock'', Num 10)]
      = seed_db\<lparr>tbl := [seed_ryzen\<lparr>stock := Num 10\<rparr>, seed_core, seed_rtx, seed_samsung]\<rparr>"
    by (simp add: changed_tbl_def seed_db_def a)
  have u: "js_prop [(''stock'', Num 10)] ''nombre'' = Undefined"
    by (simp add: js_prop_def)
  show ?thesis
    using C7_put_requires_nombre_tipo_repository_does_not
      [of "[(''stock'', Num 10)]" "app_scope PG" seed_world seed_db 1 seed_ryzen]
      u seed_getById(1) seed_not_null data_not_null_examples(3) values_fit_examples(3)
    by (simp add: a c)
qed

lemma update_frame:
  assumes "pg_update w d i datos = Inr (res, d') \<or> prisma_update w d i datos = Inr (res, d')"
  shows "map row_id (tbl d') = map row_id (tbl d) \<and> map creado_en (tbl d') = map creado_en (tbl d)"
  using assms
proof
  assume "pg_update w d i datos = Inr (res, d')"
  then show ?thesis
    by (auto simp: pg_update_conv apply_sets_keeps split: if_splits sum.splits)
next
  assume "prisma_update w d i datos = Inr (res, d')"
  then show ?thesis
    by (auto simp: prisma_update_conv apply_sets_keeps split: if_splits sum.splits list.splits)
qed

lemma apply_data_precio: "apply_data [(''precio'', v)] x = (if v = Undefined then x else x\<lparr>precio := v\<rparr>)"
  by (simp add: apply_data_def data_or_def js_prop_def)

text \<open>
  C9. For a row that exists, \<open>update(id, {precio: 50})\<close> returns and stores the row with
  \<open>precio\<close> 50 and every other column as before, in both repositories; and whatever
  the fields, an \<open>update\<close> that returns leaves the \<open>id\<close> and the \<open>creado_en\<close> of every
  row of the table as they were.
\<close>

theorem C9_update_precio_only:
  "(pg_getById d i = Some r \<and> list_all not_null_ok (tbl d) \<longrightarrow>
      pg_update w d i [(''precio'', Num 50)]
        = Inr (Some (r\<lparr>precio := Num 50\<rparr>),
               d\<lparr>tbl := map (\<lambda>x. if row_id x = i then x\<lparr>precio := Num 50\<rparr> else x) (tbl d)\<rparr>)
      \<and> prisma_update w d i [(''precio'', Num 50)]
        = Inr (Some (r\<lparr>precio := Num 50\<rparr>),
               d\<lparr>tbl := map (\<lambda>x. if row_id x = i then x\<lparr>precio := Num 50\<rparr> else x) (tbl d)\<rparr>))
   \<and> (pg_update w d i datos = Inr (res, d') \<or> prisma_update w d i datos = Inr (res, d') \<longrightarrow>
      map row_id (tbl d') = map row_id (tbl d) \<and> map creado_en (tbl d') = map creado_en (tbl d))"
proof -
  have c: "changed_tbl d i [(''precio'', Num 50)]
      = d\<lparr>tbl := map (\<lambda>x. if row_id x = i then x\<lparr>precio := Num 50\<rparr> else x) (tbl d)\<rparr>"
    by (simp add: changed_tbl_def apply_data_precio)
  have "pg_update w d i [(''precio'', Num 50)]
        = Inr (Some (r\<lparr>precio := Num 50\<rparr>),
               d\<lparr>tbl := map (\<lambda>x. if row_id x = i then x\<lparr>precio := Num 50\<rparr> else x) (tbl d)\<rparr>)
      \<and> prisma_update w d i [(''precio'', Num 50)]
        = Inr (Some (r\<lparr>precio := Num 50\<rparr>),
               d\<lparr>tbl := map (\<lambda>x. if row_id x = i then x\<lparr>precio := Num 50\<rparr> else x) (tbl d)\<rparr>)"
    if "pg_getById d i = Some r" and "list_all not_null_ok (tbl d)"
    using pg_update_existing [OF that data_not_null_examples(2) values_fit_examples(2), of w]
      prisma_update_existing [OF that data_not_null_examples(2) values_fit_examples(2), of w]
    by (simp add: c apply_data_precio)
  then show ?thesis
    using update_frame [of w d i datos res d'] by blast
qed

theorem C9_update_precio_witness:
  "pg_getById seed_db 1 = Some seed_ryzen
   \<and> list_all not_null_ok (tbl seed_db)
   \<and> pg_update seed_world seed_db 1 [(''precio'', Num 50)]
       = Inr (Some (seed_ryzen\<lparr>precio := Num 50\<rparr>),
              seed_db\<lparr>tbl := [seed_ryzen\<lparr>precio := Num 50\<rparr>, seed_core, seed_rtx, seed_samsung]\<rparr>)
   \<and> prisma_update seed_world seed_db 1 [(''precio'', Num 50)]
       = Inr (Some (seed_ryzen\<lparr>precio := Num 50\<rparr>),
              seed_db\<lparr>tbl := [seed_ryzen\<lparr>precio := Num 50\<rparr>, seed_core, seed_rtx, seed_samsung]\<rparr>)
   \<and> map row_id [seed_ryzen\<lparr>precio := Num 50\<rparr>, seed_core, seed_rtx, seed_samsung]
       = map row_id (tbl seed_db)
   \<and> map creado_en [seed_ryzen\<lparr>precio := Num 50\<rparr>, seed_core, seed_rtx, seed_samsung]
       = map creado_en (tbl seed_db)"
proof -
  have m: "map (\<lambda>x. if row_id x = 1 then x\<lparr>precio := Num 50\<rparr> else x) (tbl seed_db)
      = [seed_ryzen\<lparr>precio := Num 50\<rparr>, seed_core, seed_rtx, seed_samsung]"
    by (simp add: seed_db_def)
  have p: "pg_update seed_world seed_db 1 [(''precio'', Num 50)]
       = Inr (Some (seed_ryzen\<lparr>precio := Num 50\<rparr>),
              seed_db\<lparr>tbl := [seed_ryzen\<lparr>precio := Num 50\<rparr>, seed_core, seed_rtx, seed_samsung]\<rparr>)
     \<and> prisma_update seed_world seed_db 1 [(''precio'', Num 50)]
       = Inr (Some (seed_ryzen\<lparr>precio := Num 50\<rparr>),
              seed_db\<lparr>tbl := [seed_ryzen\<lparr>precio := Num 50\<rparr>, seed_core, seed_rtx, seed_samsung]\<rparr>)"
    using C9_update_precio_only [of seed_db 1 seed_ryzen seed_world] seed_getById(1) seed_not_null
    by (simp add: m)
  from p have "map row_id (tbl (seed_db\<lparr>tbl := [seed_ryzen\<lparr>precio := Num 50\<rparr>, seed_core, seed_rtx, seed_samsung]\<rparr>))
        = map row_id (tbl seed_db)
      \<and> map creado_en (tbl (seed_db\<lparr>tbl := [seed_ryzen\<lparr>precio := Num 50\<rparr>, seed_core, seed_rtx, seed_samsung]\<rparr>))
        = map creado_en (tbl seed_db)"
    using C9_update_precio_only [of seed_db 1 seed_ryzen seed_world "[(''precio'', Num 50)]"
        "Some (seed_ryzen\<lparr>precio := Num 50\<rparr>)"
        "seed_db\<lparr>tbl := [seed_ryzen\<lparr>precio := Num 50\<rparr>, seed_core, seed_rtx, seed_samsung]\<rparr>"]
    by blast
  then show ?thesis
    using p seed_getById(1) seed_not_null by simp
qed

lemma apply_data_column:
  "column_of c (apply_data datos r)
     = (if js_prop datos (column_key c) = Undefined then column_of c r
        else js_prop datos (column_key c))"
  by (cases c) (simp_all add: apply_data_def data_or_def)

lemma getById_changed_tbl_other:
  "j \<noteq> i \<Longrightarrow> pg_getById (changed_tbl d i datos) j = pg_getById d j"
proof -
  assume ji: "j \<noteq> i"
  have "filter (\<lambda>r. row_id r = j) (map (\<lambda>r. if row_id r = i then apply_data datos r else r) xs)
        = filter (\<lambda>r. row_id r = j) xs" for xs
    using ji by (induction xs) auto
  then show ?thesis
    by (simp add: pg_getById_filter changed_tbl_def)
qed

lemma null_is_supplied: "\<not> data_not_null datos \<Longrightarrow> supplied_all datos \<noteq> []"
  by (auto simp: data_not_null_def supplied_all_Nil_iff)

lemma pg_update_null:
  assumes "pg_getById d i = Some r" and "\<not> data_not_null datos" and "values_fit datos"
  shows "pg_update w d i datos = Inl (DatabaseError ''23502'')"
proof -
  obtain rest where f: "filter (\<lambda>x. row_id x = i) (tbl d) = r # rest"
    using assms(1) by (auto simp: pg_getById_filter split: list.splits)
  show ?thesis
    using null_is_supplied [OF assms(2)] null_apply_data [OF assms(2)]
    by (simp add: pg_update_char [OF assms(3)] f)
qed

lemma prisma_update_null:
  "\<not> data_not_null datos \<Longrightarrow> prisma_update w d i datos = Inl PrismaValidationError"
  by (simp add: prisma_update_conv)

text \<open>
  C4, as amended. Take an existing id and a field object whose supplied values are
  \<open>null\<close> or fit their columns. If it gives no \<open>null\<close> to a \<open>NOT NULL\<close> column
  (\<open>nombre\<close>, \<open>tipo\<close>, \<open>precio\<close>, \<open>stock\<close>), \<open>update\<close> of both repositories returns and
  stores the row in which a column holds the supplied value exactly when its key is
  present (not \<open>undefined\<close>), whatever the value (the empty string, \<open>null\<close> for \<open>marca\<close>),
  and its stored value otherwise; \<open>id\<close> and \<open>creado_en\<close> stay, and rows with another id
  are as before. If it gives a \<open>null\<close> to one of those four columns, \<open>update\<close> throws:
  the store's error 23502 in the SQL repository, the ORM's validation error in the other.
\<close>

theorem C4_update_sets_exactly_the_supplied_columns:
  assumes "pg_getById d i = Some r"
    and "list_all not_null_ok (tbl d)"
    and "values_fit datos"
  shows "(data_not_null datos \<longrightarrow>
      pg_update w d i datos = Inr (Some (apply_data datos r), changed_tbl d i datos)
      \<and> prisma_update w d i datos = Inr (Some (apply_data datos r), changed_tbl d i datos)
      \<and> column_of c (apply_data datos r)
          = (if js_prop datos (column_key c) = Undefined then column_of c r
             else js_prop datos (column_key c))
      \<and> row_id (apply_data datos r) = row_id r
      \<and> creado_en (apply_data datos r) = creado_en r
      \<and> pg_getById (changed_tbl d i datos) j
          = (if j = i then Some (apply_data datos r) else pg_getById d j))
    \<and> (\<not> data_not_null datos \<longrightarrow>
      pg_update w d i datos = Inl (DatabaseError ''23502'')
      \<and> prisma_update w d i datos = Inl PrismaValidationError)"
proof -
  have g: "pg_getById (changed_tbl d i datos) j
        = (if j = i then Some (apply_data datos r) else pg_getById d j)"
    using assms(1) getById_changed_tbl [of d i datos] getById_changed_tbl_other [of j i d datos]
    by simp
  have ok: "pg_update w d i datos = Inr (Some (apply_data datos r), changed_tbl d i datos)
      \<and> prisma_update w d i datos = Inr (Some (apply_data datos r), changed_tbl d i datos)"
    if "data_not_null datos"
    using pg_update_existing [OF assms(1,2) that assms(3)]
      prisma_update_existing [OF assms(1,2) that assms(3)] by simp
  have bad: "pg_update w d i datos = Inl (DatabaseError ''23502'')
      \<and> prisma_update w d i datos = Inl PrismaValidationError"
    if "\<not> data_not_null datos"
    using pg_update_null [OF assms(1) that assms(3)] prisma_update_null [OF that] by simp
  show ?thesis
    using g ok bad by (simp add: apply_data_column)
qed

theorem C4_update_supplied_columns_witness:
  "pg_getById seed_db 1 = Some seed_ryzen
   \<and> list_all not_null_ok (tbl seed_db)
   \<and> values_fit [(''nombre'', Str ''''), (''marca'', Null)]
   \<and> data_not_null [(''nombre'', Str ''''), (''marca'', Null)]
   \<and> pg_update seed_world seed_db 1 [(''nombre'', Str ''''), (''marca'', Null)]
       = Inr (Some (seed_ryzen\<lparr>nombre := Str '''', marca := Null\<rparr>),
              seed_db\<lparr>tbl := [seed_ryzen\<lparr>nombre := Str '''', marca := Null\<rparr>,
                               seed_core, seed_rtx, seed_samsung]\<rparr>)
   \<and> prisma_update seed_world seed_db 1 [(''nombre'', Str ''''), (''marca'', Null)]
       = Inr (Some (seed_ryzen\<lparr>nombre := Str '''', marca := Null\<rparr>),
              seed_db\<lparr>tbl := [seed_ryzen\<lparr>nombre := Str '''', marca := Null\<rparr>,
                               seed_core, seed_rtx, seed_samsung]\<rparr>)
   \<and> values_fit [(''stock'', Null)]
   \<and> \<not> data_not_null [(''stock'', Null)]
   \<and> pg_update seed_world seed_db 1 [(''stock'', Null)] = Inl (DatabaseError ''23502'')
   \<and> prisma_update seed_world seed_db 1 [(''stock'', Null)] = Inl PrismaValidationError"
proof -
  have n: "data_not_null [(''nombre'', Str ''''), (''marca'', Null)]"
    "\<not> data_not_null [(''stock'', Null)]"
    by (simp_all add: data_not_null_def js_prop_def)
  have v: "values_fit [(''nombre'', Str ''''), (''marca'', Null)]" "values_fit [(''stock'', Null)]"
    by (simp_all add: values_fit_iff js_prop_def)
  have a: "apply_data [(''nombre'', Str ''''), (''marca'', Null)] x
      = x\<lparr>nombre := Str '''', marca := Null\<rparr>" for x
    by (simp add: apply_data_def data_or_def js_prop_def)
  have c: "changed_tbl seed_db 1 [(''nombre'', Str ''''), (''marca'', Null)]
      = seed_db\<lparr>tbl := [seed_ryzen\<lparr>nombre := Str '''', marca := Null\<rparr>,
                        seed_core, seed_rtx, seed_samsung]\<rparr>"
    by (simp add: changed_tbl_def seed_db_def a)
  show ?thesis
    using C4_update_sets_exactly_the_supplied_columns
        [OF seed_getById(1) seed_not_null v(1), of seed_world]
      C4_update_sets_exactly_the_supplied_columns
        [OF seed_getById(1) seed_not_null v(2), of seed_world]
      seed_getById(1) seed_not_null n v
    by (simp add: a c)
qed

text \<open>
  C4 as stated fails: \<open>nombre\<close> present with the value \<open>null\<close> does not change the
  column; \<open>update\<close> throws in both repositories (the store's \<open>NOT NULL\<close> constraint,
  the ORM's validation).
\<close>

theorem C4_null_nombre_counterexample:
  "js_prop [(''nombre'', Null)] ''nombre'' \<noteq> Undefined
   \<and> pg_getById seed_db 1 = Some seed_ryzen
   \<and> pg_update seed_world seed_db 1 [(''nombre'', Null)] = Inl (DatabaseError ''23502'')
   \<and> prisma_update seed_world seed_db 1 [(''nombre'', Null)] = Inl PrismaValidationError"
proof -
  have n: "\<not> data_not_null [(''nombre'', Null)]"
    by (simp add: data_not_null_def js_prop_def)
  have v: "values_fit [(''nombre'', Null)]"
    by (simp add: values_fit_iff js_prop_def)
  show ?thesis
    using pg_update_null [OF seed_getById(1) n v] prisma_update_null [OF n] seed_getById(1)
    by (simp add: js_prop_def)
qed

text \<open>
  \<open>create\<close>: the values handed to the store are the caller's \<open>nombre\<close> and \<open>tipo\<close>
  and, for the three other columns, the caller's value or the default.
\<close>

lemma fits_defaults: "fits Precio (Num 0)" "fits Stock (Num 0)"
  by simp_all

lemma created_values_fit:
  assumes "values_fit datos"
  shows "list_all (\<lambda>cv. snd cv = Null \<or> fits (fst cv) (snd cv))
     [(Nombre, prepareValue (js_prop datos ''nombre'')),
      (Tipo, prepareValue (js_prop datos ''tipo'')),
      (Marca, prepareValue (destructure_default datos ''marca'' Null)),
      (Precio, prepareValue (destructure_default datos ''precio'' (Num 0))),
      (Stock, prepareValue (destructure_default datos ''stock'' (Num 0)))]"
  using assms
  by (auto simp: values_fit_iff prepareValue_def destructure_default_def)

lemma pg_create_conv:
  assumes "values_fit datos"
  shows "pg_create w d datos =
     (let r = \<lparr>row_id = nextval w,
                nombre = prepareValue (js_prop datos ''nombre''),
                tipo = prepareValue (js_prop datos ''tipo''),
                marca = prepareValue (destructure_default datos ''marca'' Null),
                precio = prepareValue (destructure_default datos ''precio'' (Num 0)),
                stock = prepareValue (destructure_default datos ''stock'' (Num 0)),
                creado_en = clock w\<rparr>
      in if not_null_ok r
         then if pg_getById d (nextval w) = None
              then Inr (Some r, d\<lparr>tbl := tbl d @ [r]\<rparr>)
              else Inl (DatabaseError ''23505'')
         else Inl (DatabaseError ''23502''))"
proof -
  have c: "convert_sets (pg_in w True)
     [(Nombre, prepareValue (js_prop datos ''nombre'')),
      (Tipo, prepareValue (js_prop datos ''tipo'')),
      (Marca, prepareValue (destructure_default datos ''marca'' Null)),
      (Precio, prepareValue (destructure_default datos ''precio'' (Num 0))),
      (Stock, prepareValue (destructure_default datos ''stock'' (Num 0)))]
    = Inr [(Nombre, prepareValue (js_prop datos ''nombre'')),
      (Tipo, prepareValue (js_prop datos ''tipo'')),
      (Marca, prepareValue (destructure_default datos ''marca'' Null)),
      (Precio, prepareValue (destructure_default datos ''precio'' (Num 0))),
      (Stock, prepareValue (destructure_default datos ''stock'' (Num 0)))]"
    using convert_sets_fit(1) [OF created_values_fit [OF assms]] .
  show ?thesis
    unfolding pg_create_def sql_insert_def Let_def list.map list.case c sum.case
    by (simp add: apply_sets_def new_row_def first_row_def pg_getById_filter split: list.splits)
qed


lemma pg_create_missing_throws:
  assumes "js_prop datos ''nombre'' = Undefined \<or> js_prop datos ''tipo'' = Undefined"
  shows "isl (pg_create w d datos)"
proof -
  have n: "prepareValue (js_prop datos ''nombre'') = Null \<or> prepareValue (js_prop datos ''tipo'') = Null"
    using assms by (auto simp: prepareValue_def)
  have "\<not> not_null_ok (apply_sets cs (new_row w))"
    if "convert_sets (pg_in w True)
          [(Nombre, prepareValue (js_prop datos ''nombre'')),
           (Tipo, prepareValue (js_prop datos ''tipo'')), (Marca, m), (Precio, p), (Stock, s)]
        = Inr cs" for cs m p s
    using that n
    by (auto simp: pg_in_def apply_sets_def new_row_def not_null_ok_def split: sum.splits)
  then show ?thesis
    unfolding pg_create_def sql_insert_def Let_def list.map list.case
    by (auto split: sum.splits)
qed

lemma prisma_create_missing:
  "js_prop datos ''nombre'' = Undefined \<or> js_prop datos ''tipo'' = Undefined \<Longrightarrow>
   prisma_create w d datos = Inl PrismaValidationError"
  by (auto simp: prisma_create_def model_create_def js_prop_def Let_def)

lemma pg_create_missing:
  assumes "js_prop datos ''nombre'' = Undefined \<or> js_prop datos ''tipo'' = Undefined"
    and "values_fit datos"
  shows "pg_create w d datos = Inl (DatabaseError ''23502'')"
  using assms(1)
  by (auto simp: pg_create_conv [OF assms(2)] not_null_ok_def prepareValue_def Let_def)

lemma prisma_create_eq_pg:
  assumes "js_prop datos ''nombre'' \<noteq> Undefined" and "js_prop datos ''tipo'' \<noteq> Undefined"
    and "values_fit datos"
  shows "prisma_create w d datos =
     (let r = \<lparr>row_id = nextval w,
                nombre = js_prop datos ''nombre'',
                tipo = js_prop datos ''tipo'',
                marca = destructure_default datos ''marca'' Null,
                precio = destructure_default datos ''precio'' (Num 0),
                stock = destructure_default datos ''stock'' (Num 0),
                creado_en = clock w\<rparr>
      in if not_null_ok r
         then if pg_getById d (nextval w) = None
              then Inr (Some r, d\<lparr>tbl := tbl d @ [r]\<rparr>)
              else Inl (PrismaRequestError ''P2002'')
         else Inl PrismaValidationError)"
proof -
  let ?data = "[(''nombre'', js_prop datos ''nombre''), (''tipo'', js_prop datos ''tipo''),
                (''marca'', destructure_default datos ''marca'' Null),
                (''precio'', destructure_default datos ''precio'' (Num 0)),
                (''stock'', destructure_default datos ''stock'' (Num 0))]"
  have p: "js_prop ?data ''nombre'' = js_prop datos ''nombre''"
    "js_prop ?data ''tipo'' = js_prop datos ''tipo''"
    "js_prop ?data ''marca'' = destructure_default datos ''marca'' Null"
    "js_prop ?data ''precio'' = destructure_default datos ''precio'' (Num 0)"
    "js_prop ?data ''stock'' = destructure_default datos ''stock'' (Num 0)"
    by (simp_all add: js_prop_def [of "_ # _"])
  have d: "destructure_default datos ''marca'' Null \<noteq> Undefined"
    "destructure_default datos ''precio'' (Num 0) \<noteq> Undefined"
    "destructure_default datos ''stock'' (Num 0) \<noteq> Undefined"
    by (simp_all add: destructure_default_def)
  have s: "supplied_all ?data =
      [(Nombre, js_prop datos ''nombre''), (Tipo, js_prop datos ''tipo''),
       (Marca, destructure_default datos ''marca'' Null),
       (Precio, destructure_default datos ''precio'' (Num 0)),
       (Stock, destructure_default datos ''stock'' (Num 0))]"
    using assms(1,2) d by (simp add: supplied_all_def supplied_def p)
  have f: "list_all (\<lambda>cv. snd cv = Null \<or> fits (fst cv) (snd cv)) (supplied_all ?data)"
    using created_values_fit [OF assms(3)] assms(1,2) d
    by (simp add: s prepareValue_def)
  have n: "data_not_null ?data \<longleftrightarrow>
      not_null_ok \<lparr>row_id = nextval w,
                nombre = js_prop datos ''nombre'',
                tipo = js_prop datos ''tipo'',
                marca = destructure_default datos ''marca'' Null,
                precio = destructure_default datos ''precio'' (Num 0),
                stock = destructure_default datos ''stock'' (Num 0),
                creado_en = clock w\<rparr>"
    by (simp add: data_not_null_def not_null_ok_def p)
  have m: "model_create w d ?data =
     (if data_not_null ?data
      then if pg_getById d (nextval w) = None
           then Inr (apply_sets (supplied_all ?data) (new_row w),
                     d\<lparr>tbl := tbl d @ [apply_sets (supplied_all ?data) (new_row w)]\<rparr>)
           else Inl (PrismaRequestError ''P2002'')
      else Inl PrismaValidationError)"
    unfolding model_create_def convert_sets_fit(2) [OF f] sum.case Let_def
    using assms(1,2)
    by (auto simp: p(1,2) s n apply_sets_def new_row_def apply_sets_keeps pg_getById_filter
        split: list.splits)
  show ?thesis
    unfolding prisma_create_def Let_def m
    by (simp add: n s apply_sets_def new_row_def)
qed


text \<open>
  C10, as amended. \<open>create\<close> with \<open>nombre\<close> or \<open>tipo\<close> missing inserts nothing and
  throws, but the repository does no validation of its own: in the ORM repository the
  error is the ORM's validation error; in the SQL repository it is an error of the
  store, the \<open>NOT NULL\<close> violation 23502 when the supplied values fit their columns.
  With \<open>nombre\<close> and \<open>tipo\<close> supplied, no \<open>null\<close> given to a \<open>NOT NULL\<close> column, the
  supplied values fitting their columns and an id from the sequence that is not in the
  table, both repositories return and store the new row: it holds the supplied values,
  and for each of \<open>marca\<close>, \<open>precio\<close>, \<open>stock\<close> that is omitted \<open>null\<close>, 0 and 0, with
  the id and the time given by the store.
\<close>

theorem C10_create_missing_fields_and_defaults:
  "(js_prop datos ''nombre'' = Undefined \<or> js_prop datos ''tipo'' = Undefined \<longrightarrow>
      isl (pg_create w d datos)
      \<and> prisma_create w d datos = Inl PrismaValidationError
      \<and> (values_fit datos \<longrightarrow> pg_create w d datos = Inl (DatabaseError ''23502'')))
   \<and> (js_prop datos ''nombre'' \<noteq> Undefined \<and> js_prop datos ''nombre'' \<noteq> Null
      \<and> js_prop datos ''tipo'' \<noteq> Undefined \<and> js_prop datos ''tipo'' \<noteq> Null
      \<and> js_prop datos ''precio'' \<noteq> Null \<and> js_prop datos ''stock'' \<noteq> Null
      \<and> values_fit datos \<and> pg_getById d (nextval w) = None \<longrightarrow>
      (let r = \<lparr>row_id = nextval w,
                 nombre = js_prop datos ''nombre'',
                 tipo = js_prop datos ''tipo'',
                 marca = (if js_prop datos ''marca'' = Undefined then Null
                          else js_prop datos ''marca''),
                 precio = (if js_prop datos ''precio'' = Undefined then Num 0
                           else js_prop datos ''precio''),
                 stock = (if js_prop datos ''stock'' = Undefined then Num 0
                          else js_prop datos ''stock''),
                 creado_en = clock w\<rparr>
       in pg_create w d datos = Inr (Some r, d\<lparr>tbl := tbl d @ [r]\<rparr>)
          \<and> prisma_create w d datos = Inr (Some r, d\<lparr>tbl := tbl d @ [r]\<rparr>)))"
proof -
  have missing: "isl (pg_create w d datos)
      \<and> prisma_create w d datos = Inl PrismaValidationError
      \<and> (values_fit datos \<longrightarrow> pg_create w d datos = Inl (DatabaseError ''23502''))"
    if "js_prop datos ''nombre'' = Undefined \<or> js_prop datos ''tipo'' = Undefined"
    using pg_create_missing_throws [OF that] prisma_create_missing [OF that]
      pg_create_missing [OF that] by simp
  have created: "(let r = \<lparr>row_id = nextval w,
                 nombre = js_prop datos ''nombre'',
                 tipo = js_prop datos ''tipo'',
                 marca = (if js_prop datos ''marca'' = Undefined then Null
                          else js_prop datos ''marca''),
                 precio = (if js_prop datos ''precio'' = Undefined then Num 0
                           else js_prop datos ''precio''),
                 stock = (if js_prop datos ''stock'' = Undefined then Num 0
                          else js_prop datos ''stock''),
                 creado_en = clock w\<rparr>
       in pg_create w d datos = Inr (Some r, d\<lparr>tbl := tbl d @ [r]\<rparr>)
          \<and> prisma_create w d datos = Inr (Some r, d\<lparr>tbl := tbl d @ [r]\<rparr>))"
    if "js_prop datos ''nombre'' \<noteq> Undefined" "js_prop datos ''nombre'' \<noteq> Null"
      "js_prop datos ''tipo'' \<noteq> Undefined" "js_prop datos ''tipo'' \<noteq> Null"
      "js_prop datos ''precio'' \<noteq> Null" "js_prop datos ''stock'' \<noteq> Null"
      "values_fit datos" "pg_getById d (nextval w) = None"
    using that
    by (simp add: pg_create_conv [OF that(7)] prisma_create_eq_pg [OF that(1,3,7)]
        not_null_ok_def prepareValue_def destructure_default_def Let_def)
  show ?thesis
    using missing created by blast
qed

theorem C10_create_witness:
  "js_prop [(''tipo'', Str ''CPU'')] ''nombre'' = Undefined
   \<and> values_fit [(''tipo'', Str ''CPU'')]
   \<and> pg_create seed_world seed_db [(''tipo'', Str ''CPU'')] = Inl (DatabaseError ''23502'')
   \<and> prisma_create seed_world seed_db [(''tipo'', Str ''CPU'')] = Inl PrismaValidationError
   \<and> values_fit [(''nombre'', Str ''B550''), (''tipo'', Str ''MB''), (''stock'', Num 3)]
   \<and> pg_getById seed_db (nextval seed_world) = None
   \<and> pg_create seed_world seed_db [(''nombre'', Str ''B550''), (''tipo'', Str ''MB''), (''stock'', Num 3)]
       = Inr (Some \<lparr>row_id = 5, nombre = Str ''B550'', tipo = Str ''MB'', marca = Null,
                    precio = Num 0, stock = Num 3, creado_en = 0\<rparr>,
              \<lparr>tbl = [seed_ryzen, seed_core, seed_rtx, seed_samsung,
                      \<lparr>row_id = 5, nombre = Str ''B550'', tipo = Str ''MB'', marca = Null,
                       precio = Num 0, stock = Num 3, creado_en = 0\<rparr>]\<rparr>)
   \<and> prisma_create seed_world seed_db [(''nombre'', Str ''B550''), (''tipo'', Str ''MB''), (''stock'', Num 3)]
       = Inr (Some \<lparr>row_id = 5, nombre = Str ''B550'', tipo = Str ''MB'', marca = Null,
                    precio = Num 0, stock = Num 3, creado_en = 0\<rparr>,
              \<lparr>tbl = [seed_ryzen, seed_core, seed_rtx, seed_samsung,
                      \<lparr>row_id = 5, nombre = Str ''B550'', tipo = Str ''MB'', marca = Null,
                       precio = Num 0, stock = Num 3, creado_en = 0\<rparr>]\<rparr>)"
proof -
  have m: "js_prop [(''tipo'', Str ''CPU'')] ''nombre'' = Undefined"
    by (simp add: js_prop_def)
  have k: "js_prop [(''nombre'', Str ''B550''), (''tipo'', Str ''MB''), (''stock'', Num 3)] ''nombre'' = Str ''B550''"
    "js_prop [(''nombre'', Str ''B550''), (''tipo'', Str ''MB''), (''stock'', Num 3)] ''tipo'' = Str ''MB''"
    "js_prop [(''nombre'', Str ''B550''), (''tipo'', Str ''MB''), (''stock'', Num 3)] ''marca'' = Undefined"
    "js_prop [(''nombre'', Str ''B550''), (''tipo'', Str ''MB''), (''stock'', Num 3)] ''precio'' = Undefined"
    "js_prop [(''nombre'', Str ''B550''), (''tipo'', Str ''MB''), (''stock'', Num 3)] ''stock'' = Num 3"
    by (simp_all add: js_prop_def)
  have v: "values_fit [(''tipo'', Str ''CPU'')]"
    "values_fit [(''nombre'', Str ''B550''), (''tipo'', Str ''MB''), (''stock'', Num 3)]"
    by (simp_all add: values_fit_iff js_prop_def)
  have g: "pg_getById seed_db (nextval seed_world) = None" "nextval seed_world = 5"
    "clock seed_world = 0"
    by (simp_all add: seed_world_def seed_getById)
  show ?thesis
    using C10_create_missing_fields_and_defaults [of "[(''tipo'', Str ''CPU'')]" seed_world seed_db]
      C10_create_missing_fields_and_defaults
        [of "[(''nombre'', Str ''B550''), (''tipo'', Str ''MB''), (''stock'', Num 3)]"
          seed_world seed_db] m v g(1)
    by (simp add: k g(2,3) Let_def) (simp add: seed_db_def)
qed

text \<open>
  C10 as stated fails: in the SQL repository \<open>create\<close> without \<open>nombre\<close> does not throw
  a validation error; what is thrown is the store's error 23502.
\<close>

theorem C10_no_validation_error_counterexample:
  "pg_create seed_world seed_db [(''tipo'', Str ''CPU'')] = Inl (DatabaseError ''23502'')"
proof -
  have "values_fit [(''tipo'', Str ''CPU'')]"
    by (simp add: values_fit_iff js_prop_def)
  then show ?thesis
    by (simp add: pg_create_missing js_prop_def)
qed

section \<open>Further facts\<close>

text \<open>
  With a pool in scope the handler of \<open>GET /componentes/:id\<close> would answer from the
  table: the 500 of the module as it is written comes from its scope alone.
\<close>

lemma get_componente_with_pool:
  "get_componente ((''pool'', PoolObject) # app_scope s) d i
     = (case pg_getById d i of
          None \<Rightarrow> res_json 404 (Obj [(''error'', Str ''No encontrado'')])
        | Some r \<Rightarrow> res_json 200 (row_obj r))"
  by (simp add: get_componente_def pool_query_def resolve_def sql_select_by_id_def rows0_def
      pg_getById_filter Let_def split: list.splits)

text \<open>The listing of either repository is ordered by id and holds the rows of the table.\<close>

lemma getAll_sorted:
  "sorted (map row_id (pg_getAll d))" "sorted (map row_id (prisma_getAll d))"
  by (simp_all add: pg_getAll_def sql_select_all_def prisma_getAll_def model_findMany_def)

lemma getAll_rows:
  "set (pg_getAll d) = set (tbl d)" "length (pg_getAll d) = length (tbl d)"
  "prisma_getAll d = pg_getAll d"
  by (simp_all add: pg_getAll_def sql_select_all_def prisma_getAll_def model_findMany_def)

text \<open>
  \<open>NOT NULL\<close> is an invariant of the table: in every world, an \<open>update\<close> of either
  repository that returns leaves a table whose rows satisfy it.
\<close>

lemma update_keeps_not_null:
  assumes "list_all not_null_ok (tbl d)"
    and "pg_update w d i datos = Inr (res, d') \<or> prisma_update w d i datos = Inr (res, d')"
  shows "list_all not_null_ok (tbl d')"
proof -
  have k: "list_all not_null_ok (map (\<lambda>r. if row_id r = i then apply_sets cs r else r) (tbl d))"
    if "list_all not_null_ok (map (apply_sets cs) (filter (\<lambda>r. row_id r = i) (tbl d)))" for cs
    using that assms(1) by (auto simp: list_all_iff)
  from assms(2) show ?thesis
  proof
    assume "pg_update w d i datos = Inr (res, d')"
    then show ?thesis
      using k assms(1) by (auto simp: pg_update_conv split: if_splits sum.splits)
  next
    assume "prisma_update w d i datos = Inr (res, d')"
    then show ?thesis
      using k by (auto simp: prisma_update_conv split: if_splits sum.splits list.splits)
  qed
qed

lemma pg_remove_iff:
  "pg_remove d i = Inr (b, d') \<Longrightarrow> b = (pg_getById d i \<noteq> None) \<and> pg_getById d' i = None"
  by (auto simp: pg_remove_char getById_after_delete)

text \<open>
  A value that does not fit is handed to the world: where the store refuses a \<open>stock\<close>
  beyond 32 bits (PostgreSQL raises 22003 for its \<open>INT\<close>), \<open>update\<close> (SQL) throws that
  error and changes nothing.
\<close>

lemma pg_update_out_of_range:
  assumes "pg_other w Stock (Num 2147483648) True = Inl (DatabaseError ''22003'')"
  shows "pg_update w seed_db 1 [(''stock'', Num 2147483648)] = Inl (DatabaseError ''22003'')"
proof -
  have s: "supplied_all [(''stock'', Num 2147483648)] = [(Stock, Num 2147483648)]"
    by (simp add: supplied_all_def supplied_def js_prop_def)
  have f: "filter (\<lambda>r. row_id r = 1) (tbl seed_db) \<noteq> []"
    by (simp add: seed_db_def)
  show ?thesis
    using assms f by (simp add: pg_update_conv s pg_in_def)
qed

end
